theory Spec2Isabelle
  imports Complex_Main "HOL-Library.Sublist" "HOL-Library.Word"
begin

section \<open>JavaScript values used by the automation core\<close>

text \<open>
  Window geometry, handles and pixel dimensions are integers. A thrown error is
  represented by its message text, which is what every handler of the source reads
  (\<^verbatim>\<open>error instanceof Error ? error.message : String(error)\<close>). A fallible
  backend call returns \<open>Inl msg\<close> when it throws and \<open>Inr v\<close> otherwise.
  Strings are lists of characters with code points below 256 (Latin-1); white space
  and case folding are those of JavaScript on that range.
\<close>

datatype jv = JNum int | JStr string | JBool bool | JObj "(string \<times> jv) list" | JArr "jv list"

type_synonym byte = "8 word"

record ImageContent =
  c_type :: string
  c_data :: string
  c_mimeType :: string

text \<open>\<^verbatim>\<open>WindowsControlResponse\<close>: optional fields are \<open>None\<close> when absent.\<close>

record WindowsControlResponse =
  success :: bool
  message :: string
  data :: "(string \<times> jv) list option"
  screenshot :: "string option"
  encoding :: "string option"
  content :: "ImageContent list option"

definition plain :: "bool \<Rightarrow> string \<Rightarrow> (string \<times> jv) list option \<Rightarrow> WindowsControlResponse" where
  "plain ok msg d =
     \<lparr>success = ok, message = msg, data = d, screenshot = None, encoding = None, content = None\<rparr>"

subsection \<open>Strings\<close>

text \<open>\<^verbatim>\<open>s.includes(t)\<close>: \<open>t\<close> occurs in \<open>s\<close> as a contiguous run.\<close>

fun str_includes :: "string \<Rightarrow> string \<Rightarrow> bool" where
  "str_includes [] t = (t = [])"
| "str_includes (c # cs) t = (prefix t (c # cs) \<or> str_includes cs t)"

text \<open>
  \<^verbatim>\<open>toLowerCase\<close>: the letters A to Z, and the Latin-1 capitals U+00C0 to U+00DE
  without the multiplication sign U+00D7, move up by 32.
\<close>

definition lower_char :: "char \<Rightarrow> char" where
  "lower_char c =
     (let n = (of_char c :: nat) in
      if (65 \<le> n \<and> n \<le> 90) \<or> (192 \<le> n \<and> n \<le> 222 \<and> n \<noteq> 215)
      then char_of (n + 32) else c)"

definition toLowerCase :: "string \<Rightarrow> string" where
  "toLowerCase s = map lower_char s"

text \<open>
  White space for \<^verbatim>\<open>trim\<close>: tab, line feed, vertical tab, form feed, carriage
  return, space and the no-break space U+00A0.
\<close>

definition is_space :: "char \<Rightarrow> bool" where
  "is_space c = ((of_char c :: nat) \<in> {9, 10, 11, 12, 13, 32, 160})"

text \<open>\<^verbatim>\<open>s.trim() !== ""\<close>: some character of \<open>s\<close> is not white space.\<close>

definition nonblank :: "string \<Rightarrow> bool" where
  "nonblank s = list_ex (\<lambda>c. \<not> is_space c) s"

definition digit :: "nat \<Rightarrow> char" where
  "digit d = ''0123456789'' ! d"

fun digits :: "nat \<Rightarrow> string" where
  "digits n = (if n < 10 then [digit n] else digits (n div 10) @ [digit (n mod 10)])"

declare digits.simps [simp del]

text \<open>
  Template-literal rendering of an integer-valued number, in decimal: this is the
  rendering of JavaScript for magnitudes below \<open>10^21\<close>, which covers every coordinate,
  size and metric of a desktop.
\<close>

definition num_str :: "int \<Rightarrow> string" where
  "num_str i = (if i < 0 then CHR ''-'' # digits (nat (- i)) else digits (nat i))"

definition dquote :: char where
  "dquote = CHR 0x22"

text \<open>\<^verbatim>\<open>a || b\<close> on strings and on numbers: the left operand unless it is falsy.\<close>

definition or_str :: "string \<Rightarrow> string \<Rightarrow> string" where
  "or_str a b = (if a = [] then b else a)"

definition or_num :: "int \<Rightarrow> int \<Rightarrow> int" where
  "or_num a b = (if a = 0 then b else a)"

section \<open>The keysender backend\<close>

record win =
  w_title :: string
  w_className :: string
  w_handle :: int

record view =
  v_x :: int
  v_y :: int
  v_width :: int
  v_height :: int

record capture =
  cap_data :: "byte list"
  cap_width :: nat
  cap_height :: nat

record region =
  r_x :: int
  r_y :: int
  r_width :: int
  r_height :: int

text \<open>
  The native layer as the class sees it, over an abstract native state \<open>'s\<close>.
  \<open>hw_getView h\<close> and \<open>hw_get h\<close> stand for
  \<^verbatim>\<open>new Hardware(h).workwindow.getView()\<close> and \<^verbatim>\<open>.get()\<close>; the \<open>ww_\<close> fields
  are the calls on \<^verbatim>\<open>this.hardware.workwindow\<close>. Queries read the state; \<open>ww_set\<close>,
  \<open>ww_setForeground\<close> and \<open>ww_setView\<close> change it and report \<open>Some msg\<close> when they throw.
\<close>

record 's keysender =
  getAllWindows :: "'s \<Rightarrow> string + win list"
  getWindowChildren :: "int \<Rightarrow> 's \<Rightarrow> string + win list"
  hw_getView :: "int \<Rightarrow> 's \<Rightarrow> string + view"
  hw_get :: "int \<Rightarrow> 's \<Rightarrow> string + unit"
  ww_set :: "int \<Rightarrow> 's \<Rightarrow> string option \<times> 's"
  ww_setForeground :: "'s \<Rightarrow> string option \<times> 's"
  ww_isForeground :: "'s \<Rightarrow> string + bool"
  ww_isOpen :: "'s \<Rightarrow> string + bool"
  ww_getView :: "'s \<Rightarrow> string + view"
  ww_setView :: "view \<Rightarrow> 's \<Rightarrow> string option \<times> 's"
  ww_capture :: "region option \<Rightarrow> 's \<Rightarrow> string + capture"
  GetSystemMetrics :: "int \<Rightarrow> 's \<Rightarrow> string + int"

section \<open>Window resolution: \<^verbatim>\<open>findSuitableWindow\<close>\<close>

definition windowsWithTitle :: "win list \<Rightarrow> win list" where
  "windowsWithTitle allWindows = filter (\<lambda>w. nonblank (w_title w)) allWindows"

text \<open>The first value of \<^verbatim>\<open>matchingWindows\<close>; an absent or empty target is falsy.\<close>

definition matchingWindows :: "string option \<Rightarrow> win list \<Rightarrow> win list" where
  "matchingWindows targetTitle ws =
     (case targetTitle of
        None \<Rightarrow> []
      | Some t \<Rightarrow>
          if t = [] then []
          else filter (\<lambda>w. w_title w = t \<or> str_includes (w_title w) t \<or>
                            str_includes (toLowerCase (w_title w)) (toLowerCase t)) ws)"

definition preferredWindows :: "win list \<Rightarrow> win list" where
  "preferredWindows ws =
     filter (\<lambda>w. str_includes (w_title w) ''Notepad'' \<or> str_includes (w_title w) ''Chrome'' \<or>
                  str_includes (w_title w) ''Firefox'' \<or> str_includes (w_title w) ''Visual Studio Code'' \<or>
                  str_includes (w_title w) ''Word'' \<or> str_includes (w_title w) ''Excel'' \<or>
                  str_includes (w_title w) ''PowerPoint'') ws"

text \<open>
  The candidate list the loop iterates over, or \<open>None\<close> where the source returns
  \<^verbatim>\<open>null\<close> before the loop.
\<close>

definition candidates :: "string option \<Rightarrow> win list \<Rightarrow> win list option" where
  "candidates targetTitle allWindows =
     (if allWindows = [] then None
      else let wt = windowsWithTitle allWindows in
        if wt = [] then None
        else let m = matchingWindows targetTitle wt in
          if m = [] then
            (if targetTitle \<noteq> None \<and> targetTitle \<noteq> Some [] \<and> targetTitle \<noteq> Some ''Unknown''
             then None
             else let p = preferredWindows wt in Some (if p \<noteq> [] then p else wt))
          else Some m)"

definition validView :: "view \<Rightarrow> bool" where
  "validView v = (v_width v > 0 \<and> v_height v > 0 \<and> v_x v > - 10000 \<and> v_y v > - 10000)"

text \<open>The \<^verbatim>\<open>for\<close> loop: a candidate whose view query throws is skipped.\<close>

fun firstValid :: "'s keysender \<Rightarrow> 's \<Rightarrow> win list \<Rightarrow> (win \<times> view) option" where
  "firstValid b s [] = None"
| "firstValid b s (w # ws) =
     (case hw_getView b (w_handle w) s of
        Inl e \<Rightarrow> firstValid b s ws
      | Inr v \<Rightarrow> if validView v then Some (w, v) else firstValid b s ws)"

definition fallbackView :: view where
  "fallbackView = \<lparr>v_x = 0, v_y = 0, v_width = 800, v_height = 600\<rparr>"

definition findSuitableWindow :: "'s keysender \<Rightarrow> string option \<Rightarrow> 's \<Rightarrow> (win \<times> view) option" where
  "findSuitableWindow b targetTitle s =
     (case getAllWindows b s of
        Inl e \<Rightarrow> None
      | Inr allWindows \<Rightarrow>
          (case candidates targetTitle allWindows of
             None \<Rightarrow> None
           | Some ms \<Rightarrow>
               (case firstValid b s ms of
                  Some r \<Rightarrow> Some r
                | None \<Rightarrow>
                    (case ms of
                       [] \<Rightarrow> None
                     | fallbackWindow # rest \<Rightarrow> Some (fallbackWindow, fallbackView)))))"

section \<open>Window operations of \<^verbatim>\<open>KeysenderScreenAutomation\<close>\<close>

text \<open>A boolean query whose failure is caught leaves the flag at \<^verbatim>\<open>false\<close>.\<close>

definition orFalse :: "string + bool \<Rightarrow> bool" where
  "orFalse r = (case r of Inl e \<Rightarrow> False | Inr f \<Rightarrow> f)"

definition windowData :: "win \<Rightarrow> view \<Rightarrow> (string \<times> jv) list" where
  "windowData w v =
     [(''title'', JStr (w_title w)),
      (''className'', JStr (or_str (w_className w) ''Unknown'')),
      (''handle'', JNum (w_handle w)),
      (''position'', JObj [(''x'', JNum (v_x v)), (''y'', JNum (v_y v))]),
      (''size'', JObj [(''width'', JNum (v_width v)), (''height'', JNum (v_height v))])]"

definition unknownWindow :: "(string \<times> jv) list" where
  "unknownWindow =
     [(''title'', JStr ''Unknown''),
      (''className'', JStr ''Unknown''),
      (''handle'', JNum 0),
      (''position'', JObj [(''x'', JNum 0), (''y'', JNum 0)]),
      (''size'', JObj [(''width'', JNum 0), (''height'', JNum 0)])]"

definition getActiveWindow :: "'s keysender \<Rightarrow> 's \<Rightarrow> WindowsControlResponse \<times> 's" where
  "getActiveWindow b s =
     (case findSuitableWindow b None s of
        None \<Rightarrow>
          (plain True ''Active window: Unknown (no suitable window found)'' (Some unknownWindow), s)
      | Some (typedWindow, viewInfo) \<Rightarrow>
          (case hw_get b (w_handle typedWindow) s of
             Inl e \<Rightarrow> (plain False (''Failed to get active window: '' @ e) None, s)
           | Inr u \<Rightarrow>
               let s1 = snd (ww_set b (w_handle typedWindow) s);
                   isForeground = orFalse (ww_isForeground b s1)
               in (plain True
                     (''Active window: '' @ w_title typedWindow @
                        (if isForeground then '' (foreground)'' else []))
                     (Some (windowData typedWindow viewInfo @
                            [(''isForeground'', JBool isForeground)])),
                   s1)))"

definition notFound :: "string \<Rightarrow> WindowsControlResponse" where
  "notFound title = plain False (''Could not find window with title: '' @ title) None"

text \<open>
  \<^verbatim>\<open>focusWindow\<close>. The child-window enumeration of the source feeds a log line only;
  its result and its failure are discarded, so it does not appear in the value.
\<close>

definition focusWindow :: "'s keysender \<Rightarrow> string \<Rightarrow> 's \<Rightarrow> WindowsControlResponse \<times> 's" where
  "focusWindow b title s =
     (case findSuitableWindow b (Some title) s of
        None \<Rightarrow>
          (if title = ''Unknown'' then
             (case findSuitableWindow b None s of
                None \<Rightarrow> (notFound title, s)
              | Some (anyWindow, anyView) \<Rightarrow>
                  (case ww_set b (w_handle anyWindow) s of
                     (Some e, s1) \<Rightarrow> (notFound title, s1)
                   | (None, s1) \<Rightarrow>
                       let s2 = snd (ww_setForeground b s1);
                           isForeground = orFalse (ww_isForeground b s2)
                       in (plain True (''Focused alternative window: '' @ w_title anyWindow)
                             (Some (windowData anyWindow anyView @
                                    [(''isForeground'', JBool isForeground)])),
                           s2)))
           else (notFound title, s))
      | Some (targetWindow, viewInfo) \<Rightarrow>
          let s1 = snd (ww_set b (w_handle targetWindow) s);
              s2 = snd (ww_setForeground b s1);
              isForeground = orFalse (ww_isForeground b s2);
              isOpen = orFalse (ww_isOpen b s2)
          in (plain True
                (''Focused window: '' @ w_title targetWindow @
                   (if isForeground then '' (foreground)'' else []) @
                   (if isOpen then '' (open)'' else []))
                (Some (windowData targetWindow viewInfo @
                       [(''isForeground'', JBool isForeground), (''isOpen'', JBool isOpen)])),
              s2))"

subsection \<open>Resize and reposition\<close>

datatype operationType = reposition | resize

text \<open>\<^verbatim>\<open>${n}\<close> for a \<^verbatim>\<open>number | null\<close>.\<close>

definition opt_str :: "int option \<Rightarrow> string" where
  "opt_str n = (case n of None \<Rightarrow> ''null'' | Some i \<Rightarrow> num_str i)"

definition opt_or0 :: "int option \<Rightarrow> int" where
  "opt_or0 n = (case n of None \<Rightarrow> 0 | Some i \<Rightarrow> i)"

definition zeroView :: view where
  "zeroView = \<lparr>v_x = 0, v_y = 0, v_width = 0, v_height = 0\<rparr>"

text \<open>What \<^verbatim>\<open>updateWindowPosition\<close> holds when it suspends at its 100 ms delay.\<close>

record pending =
  pend_title :: string
  pend_handle :: int
  pend_newView :: view

text \<open>
  \<^verbatim>\<open>updateWindowPosition\<close> is an \<^verbatim>\<open>async\<close> function. The part before its only
  \<^verbatim>\<open>await\<close> runs at the call: focus, read of the current view, merge, \<^verbatim>\<open>setView\<close>.
  It ends either with the failed focus envelope (\<open>Inl\<close>) or suspended (\<open>Inr\<close>).
\<close>

definition updateWindowPosition_begin ::
  "'s keysender \<Rightarrow> string \<Rightarrow> int option \<Rightarrow> int option \<Rightarrow> int option \<Rightarrow> int option \<Rightarrow> 's \<Rightarrow>
     (WindowsControlResponse + pending) \<times> 's" where
  "updateWindowPosition_begin b windowTitle x y width height s =
     (let (focusResult, s1) = focusWindow b windowTitle s in
      if \<not> success focusResult then (Inl focusResult, s1)
      else
        let actualTitle =
              (case data focusResult of
                 None \<Rightarrow> windowTitle
               | Some d \<Rightarrow> (case map_of d ''title'' of
                              Some (JStr t) \<Rightarrow> or_str t windowTitle
                            | _ \<Rightarrow> windowTitle));
            handle =
              (case data focusResult of
                 None \<Rightarrow> 0
               | Some d \<Rightarrow> (case map_of d ''handle'' of
                              Some (JNum h) \<Rightarrow> or_num h 0
                            | _ \<Rightarrow> 0));
            currentView = (case ww_getView b s1 of Inl e \<Rightarrow> zeroView | Inr v \<Rightarrow> v);
            newView =
              \<lparr>v_x = (case x of Some x' \<Rightarrow> x' | None \<Rightarrow> or_num (v_x currentView) 0),
               v_y = (case y of Some y' \<Rightarrow> y' | None \<Rightarrow> or_num (v_y currentView) 0),
               v_width = (case width of Some w' \<Rightarrow> w' | None \<Rightarrow> or_num (v_width currentView) 0),
               v_height = (case height of Some h' \<Rightarrow> h' | None \<Rightarrow> or_num (v_height currentView) 0)\<rparr>;
            s2 = snd (ww_setView b newView s1)
        in (Inr \<lparr>pend_title = actualTitle, pend_handle = handle, pend_newView = newView\<rparr>, s2))"

text \<open>The part after the delay, run in the native state \<open>s\<close> found at that time.\<close>

definition updateWindowPosition_end ::
  "'s keysender \<Rightarrow> pending \<Rightarrow> int option \<Rightarrow> int option \<Rightarrow> int option \<Rightarrow> int option \<Rightarrow>
     operationType \<Rightarrow> 's \<Rightarrow> WindowsControlResponse" where
  "updateWindowPosition_end b p x y width height operationType s =
     (let newView = pend_newView p;
          updatedView = (case ww_getView b s of Inl e \<Rightarrow> newView | Inr v \<Rightarrow> v);
          isForeground = orFalse (ww_isForeground b s)
      in plain True
           ((if operationType = resize then ''Resized'' else ''Repositioned'') @ '' window '' @
              [dquote] @ pend_title p @ [dquote] @ '' to '' @
              (if operationType = resize then opt_str width @ ''x'' @ opt_str height
               else ''('' @ opt_str x @ '', '' @ opt_str y @ '')''))
           (Some [(''title'', JStr (pend_title p)),
                  (''handle'', JNum (pend_handle p)),
                  (''position'', JObj [(''x'', JNum (or_num (v_x updatedView) (v_x newView))),
                                       (''y'', JNum (or_num (v_y updatedView) (v_y newView)))]),
                  (''size'', JObj [(''width'', JNum (or_num (v_width updatedView) (v_width newView))),
                                   (''height'', JNum (or_num (v_height updatedView) (v_height newView)))]),
                  (''isForeground'', JBool isForeground),
                  (if operationType = resize
                   then (''requestedSize'', JObj [(''width'', JNum (opt_or0 width)),
                                                  (''height'', JNum (opt_or0 height))])
                   else (''requestedPosition'', JObj [(''x'', JNum (opt_or0 x)),
                                                      (''y'', JNum (opt_or0 y))]))]))"

text \<open>
  The promise's value when it is awaited and nothing else touches the native state
  during the delay.
\<close>

definition updateWindowPosition ::
  "'s keysender \<Rightarrow> string \<Rightarrow> int option \<Rightarrow> int option \<Rightarrow> int option \<Rightarrow> int option \<Rightarrow>
     operationType \<Rightarrow> 's \<Rightarrow> WindowsControlResponse \<times> 's" where
  "updateWindowPosition b windowTitle x y width height operationType s =
     (case updateWindowPosition_begin b windowTitle x y width height s of
        (Inl r, s1) \<Rightarrow> (r, s1)
      | (Inr p, s2) \<Rightarrow> (updateWindowPosition_end b p x y width height operationType s2, s2))"

text \<open>
  \<^verbatim>\<open>resizeWindow\<close> and \<^verbatim>\<open>repositionWindow\<close> start the promise with \<^verbatim>\<open>void\<close> and
  return at once: the native state has gone through the part before the delay, the
  promise's value is dropped, and the envelope is built from the arguments alone.
\<close>

definition resizeWindow ::
  "'s keysender \<Rightarrow> string \<Rightarrow> int \<Rightarrow> int \<Rightarrow> 's \<Rightarrow> WindowsControlResponse \<times> 's" where
  "resizeWindow b title width height s =
     (let s' = snd (updateWindowPosition_begin b title None None (Some width) (Some height) s)
      in (plain True
            (''Resized window '' @ [dquote] @ title @ [dquote] @ '' to '' @
               num_str width @ ''x'' @ num_str height)
            (Some [(''title'', JStr title),
                   (''handle'', JNum 0),
                   (''position'', JObj [(''x'', JNum 0), (''y'', JNum 0)]),
                   (''size'', JObj [(''width'', JNum width), (''height'', JNum height)]),
                   (''isForeground'', JBool False),
                   (''requestedSize'', JObj [(''width'', JNum width), (''height'', JNum height)])]),
          s'))"

definition repositionWindow ::
  "'s keysender \<Rightarrow> string \<Rightarrow> int \<Rightarrow> int \<Rightarrow> 's \<Rightarrow> WindowsControlResponse \<times> 's" where
  "repositionWindow b title x y s =
     (let s' = snd (updateWindowPosition_begin b title (Some x) (Some y) None None s)
      in (plain True
            (''Repositioned window '' @ [dquote] @ title @ [dquote] @ '' to ('' @
               num_str x @ '', '' @ num_str y @ '')'')
            (Some [(''title'', JStr title),
                   (''handle'', JNum 0),
                   (''position'', JObj [(''x'', JNum x), (''y'', JNum y)]),
                   (''size'', JObj [(''width'', JNum 0), (''height'', JNum 0)]),
                   (''isForeground'', JBool False),
                   (''requestedPosition'', JObj [(''x'', JNum x), (''y'', JNum y)])]),
          s'))"

subsection \<open>Primary screen size\<close>


subsection \<open>All displays\<close>







section \<open>Screenshots\<close>

datatype image_format = Jpeg | Png

datatype fit = Contain | Cover | Fill | Inside | Outside

record resize_options =
  rs_width :: "int option"
  rs_height :: "int option"
  rs_fit :: "fit option"

text \<open>
  A key of the options object that has a default: absent, or present with a value that
  may be \<^verbatim>\<open>undefined\<close> (\<open>Present None\<close>). The spread lets a present key override the
  default whatever its value. For the other keys absent and \<^verbatim>\<open>undefined\<close> read the
  same.
\<close>

datatype 'a key = Absent | Present "'a option"

fun key_val :: "'a key \<Rightarrow> 'a option" where
  "key_val Absent = None"
| "key_val (Present v) = v"

fun spread :: "'a \<Rightarrow> 'a key \<Rightarrow> 'a key" where
  "spread d Absent = Present (Some d)"
| "spread d (Present v) = Present v"

record ScreenshotOptions =
  o_region :: "region option"
  o_format :: "image_format key"
  o_quality :: "int key"
  o_grayscale :: "bool option"
  o_compressionLevel :: "int option"
  o_resize :: "resize_options key"

text \<open>The defaults with the caller's options spread over them.\<close>

definition mergedOptions :: "ScreenshotOptions option \<Rightarrow> ScreenshotOptions" where
  "mergedOptions options =
     (let dflt = \<lparr>rs_width = Some 1280, rs_height = None, rs_fit = Some Inside\<rparr> in
      case options of
        None \<Rightarrow>
          \<lparr>o_region = None, o_format = Present (Some Jpeg), o_quality = Present (Some 70),
           o_grayscale = None, o_compressionLevel = None, o_resize = Present (Some dflt)\<rparr>
      | Some opts \<Rightarrow>
          \<lparr>o_region = o_region opts,
           o_format = spread Jpeg (o_format opts),
           o_quality = spread 70 (o_quality opts),
           o_grayscale = o_grayscale opts,
           o_compressionLevel = o_compressionLevel opts,
           o_resize = spread dflt (o_resize opts)\<rparr>)"

text \<open>\<^verbatim>\<open>n || d\<close> and the truth value of an optional number.\<close>

definition opt_or :: "int option \<Rightarrow> int \<Rightarrow> int" where
  "opt_or n d = (case n of None \<Rightarrow> d | Some i \<Rightarrow> or_num i d)"

definition truthy :: "int option \<Rightarrow> bool" where
  "truthy n = (case n of None \<Rightarrow> False | Some i \<Rightarrow> i \<noteq> 0)"

definition resizeWidth :: "ScreenshotOptions \<Rightarrow> int option" where
  "resizeWidth m = (case key_val (o_resize m) of None \<Rightarrow> None | Some r \<Rightarrow> rs_width r)"

definition resizeHeight :: "ScreenshotOptions \<Rightarrow> int option" where
  "resizeHeight m = (case key_val (o_resize m) of None \<Rightarrow> None | Some r \<Rightarrow> rs_height r)"

definition resizeFit :: "ScreenshotOptions \<Rightarrow> fit" where
  "resizeFit m =
     (case key_val (o_resize m) of
        None \<Rightarrow> Inside
      | Some r \<Rightarrow> (case rs_fit r of None \<Rightarrow> Inside | Some f \<Rightarrow> f))"

text \<open>
  The calls made on the image library, in order: the raw input description, the resizes
  (width, height, fit, \<^verbatim>\<open>withoutEnlargement\<close>) and the encoder with its quality or
  compression level.
\<close>

datatype sharp_op =
    Raw nat nat nat
  | Resize "int option" "int option" "fit option" bool
  | RemoveAlpha
  | ToColorspace string
  | Grayscale
  | JpegOut int
  | PngOut int

definition initialWidth :: "nat \<Rightarrow> ScreenshotOptions \<Rightarrow> int" where
  "initialWidth width m = min (int width) (opt_or (resizeWidth m) 1280)"

definition pipeline :: "capture \<Rightarrow> ScreenshotOptions \<Rightarrow> sharp_op list" where
  "pipeline cap m =
     [Raw (cap_width cap) (cap_height cap) 4,
      Resize (Some (initialWidth (cap_width cap) m)) None None True,
      RemoveAlpha,
      ToColorspace ''srgb''] @
     (if o_grayscale m = Some True then [Grayscale] else []) @
     (if truthy (resizeWidth m) \<or> truthy (resizeHeight m)
      then [Resize (resizeWidth m) (resizeHeight m) (Some (resizeFit m)) True] else []) @
     [if key_val (o_format m) = Some Jpeg then JpegOut (opt_or (key_val (o_quality m)) 70)
      else PngOut (opt_or (o_compressionLevel m) 9)]"

text \<open>
  The image library: \<open>sharp_import\<close> is \<open>Some msg\<close> when the dynamic import rejects;
  \<open>sharp_toBuffer buf ops\<close> is the outcome of building and running the pipeline \<open>ops\<close>
  on the raw buffer, \<open>Inl msg\<close> when any stage of it raises.
\<close>

record sharp =
  sharp_import :: "string option"
  sharp_toBuffer :: "byte list \<Rightarrow> sharp_op list \<Rightarrow> string + byte list"

subsection \<open>Base64 (\<^verbatim>\<open>Buffer.toString('base64')\<close>)\<close>

definition b64_alphabet :: string where
  "b64_alphabet = ''ABCDEFGHIJKLMNOPQRSTUVWXYZabcdefghijklmnopqrstuvwxyz0123456789+/''"

definition b64_char :: "nat \<Rightarrow> char" where
  "b64_char n = b64_alphabet ! (n mod 64)"

fun base64 :: "byte list \<Rightarrow> string" where
  "base64 [] = []"
| "base64 [a] =
     [b64_char (unat a div 4), b64_char (unat a mod 4 * 16), CHR ''='', CHR ''='']"
| "base64 [a, b] =
     [b64_char (unat a div 4), b64_char (unat a mod 4 * 16 + unat b div 16),
      b64_char (unat b mod 16 * 4), CHR ''='']"
| "base64 (a # b # c # rest) =
     [b64_char (unat a div 4), b64_char (unat a mod 4 * 16 + unat b div 16),
      b64_char (unat b mod 16 * 4 + unat c div 64), b64_char (unat c mod 64)] @ base64 rest"

subsection \<open>Dimensions reported by the fallback\<close>

text \<open>
  The source computes the scale factor and the scaled sizes in IEEE doubles: a quotient
  or product of two doubles is the exact one, rounded to the nearest double. The
  rounding is the parameter \<open>fl\<close>. The captured sizes are naturals, which are doubles
  below \<open>2^53\<close>, and \<open>1280\<close> is a double. \<^verbatim>\<open>Math.round\<close> is exact on a double and
  rounds halves up. A division by a zero size is \<^verbatim>\<open>Infinity\<close> in the source, so
  \<^verbatim>\<open>Math.min\<close> returns the other quotient; both sizes cannot be zero when one of
  them exceeds the bound.
\<close>

definition Math_round :: "real \<Rightarrow> int" where
  "Math_round r = \<lfloor>r + 1 / 2\<rfloor>"

definition maxSize :: nat where
  "maxSize = 1280"

definition scaleFactor :: "(real \<Rightarrow> real) \<Rightarrow> nat \<Rightarrow> nat \<Rightarrow> real" where
  "scaleFactor fl width height =
     (if width > maxSize \<or> height > maxSize then
        (if width = 0 then fl (real maxSize / real height)
         else if height = 0 then fl (real maxSize / real width)
         else min (fl (real maxSize / real width)) (fl (real maxSize / real height)))
      else 1)"

definition scaledWidth :: "(real \<Rightarrow> real) \<Rightarrow> nat \<Rightarrow> nat \<Rightarrow> int" where
  "scaledWidth fl width height = Math_round (fl (real width * scaleFactor fl width height))"

definition scaledHeight :: "(real \<Rightarrow> real) \<Rightarrow> nat \<Rightarrow> nat \<Rightarrow> int" where
  "scaledHeight fl width height = Math_round (fl (real height * scaleFactor fl width height))"

text \<open>
  What is known of the rounding of doubles: on zero and on the normal range, from
  \<open>2^-1022\<close> to \<open>2^1023\<close>, the result is within the relative error \<open>2^-53\<close>.
\<close>

definition double_rounding :: "(real \<Rightarrow> real) \<Rightarrow> bool" where
  "double_rounding fl =
     (\<forall>x. x = 0 \<or> (1 / 2 ^ 1022 \<le> \<bar>x\<bar> \<and> \<bar>x\<bar> \<le> 2 ^ 1023) \<longrightarrow> \<bar>fl x - x\<bar> \<le> \<bar>x\<bar> / 2 ^ 53)"

text \<open>
  Rounding to 53 significant bits, ties to even, with no bound on the exponent: the
  rounding of doubles wherever no overflow or underflow occurs.
\<close>

definition round_even :: "real \<Rightarrow> int" where
  "round_even r =
     (let n = \<lfloor>r\<rfloor> in
      if r - of_int n < 1 / 2 then n
      else if r - of_int n > 1 / 2 then n + 1
      else if even n then n else n + 1)"

definition double53 :: "real \<Rightarrow> real" where
  "double53 x =
     (if x = 0 then 0
      else let e = \<lfloor>log 2 \<bar>x\<bar>\<rfloor> - 52
           in of_int (round_even (x / 2 powr of_int e)) * 2 powr of_int e)"

subsection \<open>\<^verbatim>\<open>getScreenshot\<close>\<close>

definition mimeType :: "ScreenshotOptions \<Rightarrow> string" where
  "mimeType m = (if key_val (o_format m) = Some Jpeg then ''image/jpeg'' else ''image/png'')"

definition imageResponse ::
  "string \<Rightarrow> string \<Rightarrow> (string \<times> jv) list \<Rightarrow> string \<Rightarrow> WindowsControlResponse" where
  "imageResponse msg base64Data d mime =
     \<lparr>success = True, message = msg, data = Some d, screenshot = Some base64Data,
      encoding = Some ''base64'',
      content = Some [\<lparr>c_type = ''image'', c_data = base64Data, c_mimeType = mime\<rparr>]\<rparr>"

definition regionOf :: "ScreenshotOptions option \<Rightarrow> region option" where
  "regionOf options = (case options of None \<Rightarrow> None | Some opts \<Rightarrow> o_region opts)"

definition getScreenshot ::
  "(real \<Rightarrow> real) \<Rightarrow> sharp \<Rightarrow> 's keysender \<Rightarrow> ScreenshotOptions option \<Rightarrow> 's \<Rightarrow>
     WindowsControlResponse" where
  "getScreenshot fl lib b options s =
     (case sharp_import lib of
        Some e \<Rightarrow> plain False (''Failed to capture screenshot: '' @ e) None
      | None \<Rightarrow>
          let m = mergedOptions options in
          (case ww_capture b (regionOf options) s of
             Inl e \<Rightarrow> plain False (''Failed to capture screenshot: '' @ e) None
           | Inr cap \<Rightarrow>
               let width = cap_width cap; height = cap_height cap; screenImage = cap_data cap in
               (case sharp_toBuffer lib screenImage (pipeline cap m) of
                  Inr outputBuffer \<Rightarrow>
                    imageResponse ''Screenshot captured successfully'' (base64 outputBuffer)
                      (case regionOf options of
                         Some r \<Rightarrow> [(''width'', JNum (r_width r)), (''height'', JNum (r_height r))]
                       | None \<Rightarrow> [(''width'', JNum (Math_round (real width))),
                                   (''height'', JNum (Math_round (real height)))])
                      (mimeType m)
                | Inl sharpError \<Rightarrow>
                    imageResponse ''Screenshot captured with basic processing'' (base64 screenImage)
                      (case regionOf options of
                         Some r \<Rightarrow> [(''width'', JNum (r_width r)), (''height'', JNum (r_height r))]
                       | None \<Rightarrow> [(''width'', JNum (scaledWidth fl width height)),
                                   (''height'', JNum (scaledHeight fl width height))])
                      (mimeType m))))"

section \<open>Mouse tools\<close>

text \<open>A coordinate: a number of the position type, or \<^verbatim>\<open>NaN\<close>.\<close>

datatype jsnum = NaN | Num int

record MousePosition =
  p_x :: jsnum
  p_y :: jsnum

definition isNaN :: "jsnum \<Rightarrow> bool" where
  "isNaN n = (n = NaN)"

text \<open>Comparisons: every comparison with \<^verbatim>\<open>NaN\<close> is false.\<close>

fun js_lt :: "jsnum \<Rightarrow> jsnum \<Rightarrow> bool" where
  "js_lt (Num a) (Num b) = (a < b)"
| "js_lt a b = False"

fun js_gt :: "jsnum \<Rightarrow> jsnum \<Rightarrow> bool" where
  "js_gt (Num a) (Num b) = (a > b)"
| "js_gt a b = False"

fun js_ge :: "jsnum \<Rightarrow> jsnum \<Rightarrow> bool" where
  "js_ge (Num a) (Num b) = (a \<ge> b)"
| "js_ge a b = False"

fun js_pred :: "jsnum \<Rightarrow> jsnum" where
  "js_pred (Num a) = Num (a - 1)"
| "js_pred NaN = NaN"

fun jsnum_str :: "jsnum \<Rightarrow> string" where
  "jsnum_str NaN = ''NaN''"
| "jsnum_str (Num i) = num_str i"

definition MAX_ALLOWED_COORDINATE :: int where
  "MAX_ALLOWED_COORDINATE = 10000"

text \<open>
  The provider as the mouse tools use it. Each capability call may throw or return an
  envelope, and may change the native state. \<open>has_mouse\<close> and \<open>has_getScreenSize\<close>
  say whether \<^verbatim>\<open>provider.mouse\<close> and \<^verbatim>\<open>provider.screen.getScreenSize\<close> exist.
  The tools record every capability call they make.
\<close>

datatype call =
    Call_getScreenSize
  | Call_moveMouse MousePosition
  | Call_clickMouse string
  | Call_doubleClick "MousePosition option"
  | Call_getCursorPosition
  | Call_scrollMouse jsnum
  | Call_clickAt jsnum jsnum string
  | Call_dragMouse MousePosition MousePosition string

fun is_mouse_call :: "call \<Rightarrow> bool" where
  "is_mouse_call Call_getScreenSize = False"
| "is_mouse_call c = True"

record 's AutomationProvider =
  has_mouse :: bool
  mouse_moveMouse :: "MousePosition \<Rightarrow> 's \<Rightarrow> (string + WindowsControlResponse) \<times> 's"
  mouse_clickMouse :: "string \<Rightarrow> 's \<Rightarrow> (string + WindowsControlResponse) \<times> 's"
  mouse_doubleClick :: "MousePosition option \<Rightarrow> 's \<Rightarrow> (string + WindowsControlResponse) \<times> 's"
  mouse_getCursorPosition :: "'s \<Rightarrow> (string + WindowsControlResponse) \<times> 's"
  mouse_scrollMouse :: "jsnum \<Rightarrow> 's \<Rightarrow> (string + WindowsControlResponse) \<times> 's"
  mouse_clickAt :: "jsnum \<Rightarrow> jsnum \<Rightarrow> string \<Rightarrow> 's \<Rightarrow> (string + WindowsControlResponse) \<times> 's"
  mouse_dragMouse ::
    "MousePosition \<Rightarrow> MousePosition \<Rightarrow> string \<Rightarrow> 's \<Rightarrow> (string + WindowsControlResponse) \<times> 's"
  has_getScreenSize :: bool
  screen_getScreenSize :: "'s \<Rightarrow> (string + WindowsControlResponse) \<times> 's"

text \<open>A numeric field of a payload; a missing field compares like \<^verbatim>\<open>NaN\<close>.\<close>

definition num_field :: "(string \<times> jv) list \<Rightarrow> string \<Rightarrow> jsnum" where
  "num_field d k = (case map_of d k of Some (JNum n) \<Rightarrow> Num n | _ \<Rightarrow> NaN)"

definition pos_str :: "MousePosition \<Rightarrow> string" where
  "pos_str position = ''('' @ jsnum_str (p_x position) @ '','' @ jsnum_str (p_y position) @ '')''"

text \<open>The body of the inner \<^verbatim>\<open>try\<close> of \<^verbatim>\<open>validateMousePosition\<close>.\<close>

definition screenBoundsCheck ::
  "'s AutomationProvider \<Rightarrow> MousePosition \<Rightarrow> 's \<Rightarrow> (string + unit) \<times> 's \<times> call list" where
  "screenBoundsCheck provider position s =
     (if has_getScreenSize provider then
        (case screen_getScreenSize provider s of
           (Inl e, s1) \<Rightarrow> (Inl e, s1, [Call_getScreenSize])
         | (Inr screenSizeResponse, s1) \<Rightarrow>
             (case data screenSizeResponse of
                None \<Rightarrow> (Inr (), s1, [Call_getScreenSize])
              | Some d \<Rightarrow>
                  if success screenSizeResponse \<and>
                     (js_lt (p_x position) (Num 0) \<or> js_ge (p_x position) (num_field d ''width'') \<or>
                      js_lt (p_y position) (Num 0) \<or> js_ge (p_y position) (num_field d ''height''))
                  then (Inl (''Position '' @ pos_str position @ '' is outside screen bounds (0,0)-('' @
                             jsnum_str (js_pred (num_field d ''width'')) @ '','' @
                             jsnum_str (js_pred (num_field d ''height'')) @ '')''),
                        s1, [Call_getScreenSize])
                  else (Inr (), s1, [Call_getScreenSize])))
      else (Inr (), s, []))"

text \<open>
  The body of the outer \<^verbatim>\<open>try\<close> of \<^verbatim>\<open>validateMousePosition\<close>: the check against
  the reasonable bounds, then the screen-bounds block, whose own \<^verbatim>\<open>catch\<close> takes
  whatever that block throws.
\<close>

definition boundsChecks ::
  "'s AutomationProvider \<Rightarrow> MousePosition \<Rightarrow> 's \<Rightarrow> (string + unit) \<times> 's \<times> call list" where
  "boundsChecks provider position s =
     (if js_lt (p_x position) (Num (- MAX_ALLOWED_COORDINATE)) \<or>
         js_gt (p_x position) (Num MAX_ALLOWED_COORDINATE) \<or>
         js_lt (p_y position) (Num (- MAX_ALLOWED_COORDINATE)) \<or>
         js_gt (p_y position) (Num MAX_ALLOWED_COORDINATE)
      then (Inl (''Position '' @ pos_str position @ '' is outside reasonable bounds (-'' @
                 num_str MAX_ALLOWED_COORDINATE @ '', -'' @ num_str MAX_ALLOWED_COORDINATE @ '')-('' @
                 num_str MAX_ALLOWED_COORDINATE @ '', '' @ num_str MAX_ALLOWED_COORDINATE @ '')''),
            s, [])
      else
        (case screenBoundsCheck provider position s of
           (r, s1, calls) \<Rightarrow> (Inr (), s1, calls)))"

text \<open>
  \<^verbatim>\<open>validateMousePosition\<close>. The outer \<^verbatim>\<open>catch\<close> rethrows only outside a test
  environment (\<open>test_env\<close>: \<^verbatim>\<open>NODE_ENV === 'test'\<close> or \<^verbatim>\<open>VITEST\<close> set).
\<close>

definition validateMousePosition ::
  "bool \<Rightarrow> 's AutomationProvider \<Rightarrow> MousePosition \<Rightarrow> 's \<Rightarrow> (string + unit) \<times> 's \<times> call list" where
  "validateMousePosition test_env provider position s =
     (if isNaN (p_x position) \<or> isNaN (p_y position) then
        (Inl (''Invalid mouse position: x and y cannot be NaN, got x='' @ jsnum_str (p_x position) @
              '', y='' @ jsnum_str (p_y position)), s, [])
      else
        (case boundsChecks provider position s of
           (Inl e, s1, calls) \<Rightarrow> if test_env then (Inr (), s1, calls) else (Inl e, s1, calls)
         | (Inr u, s1, calls) \<Rightarrow> (Inr (), s1, calls)))"

definition squote :: char where
  "squote = CHR 0x27"

definition validateMouseButton :: "string \<Rightarrow> string + string" where
  "validateMouseButton button =
     (if button = [] then Inl (''Invalid mouse button: '' @ button)
      else if button \<notin> set [''left'', ''right'', ''middle'']
      then Inl (''Invalid mouse button: '' @ button @ ''. Must be '' @
                [squote] @ ''left'' @ [squote] @ '', '' @ [squote] @ ''right'' @ [squote] @
                '', or '' @ [squote] @ ''middle'' @ [squote])
      else Inr button)"

text \<open>The end of every tool: the capability call, whose exception becomes an envelope.\<close>

definition finish ::
  "string \<Rightarrow> (string + WindowsControlResponse) \<times> 's \<Rightarrow> call list \<Rightarrow>
     WindowsControlResponse \<times> 's \<times> call list" where
  "finish what r calls =
     (case r of
        (Inl e, s') \<Rightarrow> (plain False (what @ e) None, s', calls)
      | (Inr resp, s') \<Rightarrow> (resp, s', calls))"

definition moveMouse ::
  "bool \<Rightarrow> 's AutomationProvider \<Rightarrow> MousePosition \<Rightarrow> 's \<Rightarrow>
     WindowsControlResponse \<times> 's \<times> call list" where
  "moveMouse test_env provider position s =
     (case validateMousePosition test_env provider position s of
        (Inl e, s1, calls) \<Rightarrow> (plain False (''Failed to move mouse: '' @ e) None, s1, calls)
      | (Inr u, s1, calls) \<Rightarrow>
          if \<not> has_mouse provider
          then (plain False (''Failed to move mouse: '' @ ''Mouse provider not available'') None,
                s1, calls)
          else finish ''Failed to move mouse: '' (mouse_moveMouse provider position s1)
                 (calls @ [Call_moveMouse position]))"







definition dragMouse ::
  "bool \<Rightarrow> 's AutomationProvider \<Rightarrow> MousePosition \<Rightarrow> MousePosition \<Rightarrow> string \<Rightarrow> 's \<Rightarrow>
     WindowsControlResponse \<times> 's \<times> call list" where
  "dragMouse test_env provider from to button s =
     (case validateMousePosition test_env provider from s of
        (Inl e, s1, calls) \<Rightarrow> (plain False (''Failed to drag mouse: '' @ e) None, s1, calls)
      | (Inr u, s1, calls) \<Rightarrow>
          (case validateMousePosition test_env provider to s1 of
             (Inl e, s2, calls') \<Rightarrow>
               (plain False (''Failed to drag mouse: '' @ e) None, s2, calls @ calls')
           | (Inr u', s2, calls') \<Rightarrow>
               (case validateMouseButton button of
                  Inl e \<Rightarrow> (plain False (''Failed to drag mouse: '' @ e) None, s2, calls @ calls')
                | Inr validatedButton \<Rightarrow>
                    if \<not> has_mouse provider
                    then (plain False (''Failed to drag mouse: '' @ ''Mouse provider not available'')
                            None, s2, calls @ calls')
                    else finish ''Failed to drag mouse: ''
                           (mouse_dragMouse provider from to validatedButton s2)
                           (calls @ calls' @ [Call_dragMouse from to validatedButton]))))"

definition clickAt ::
  "bool \<Rightarrow> 's AutomationProvider \<Rightarrow> jsnum \<Rightarrow> jsnum \<Rightarrow> string \<Rightarrow> 's \<Rightarrow>
     WindowsControlResponse \<times> 's \<times> call list" where
  "clickAt test_env provider x y button s =
     (if isNaN x \<or> isNaN y then (plain False ''Invalid coordinates provided'' None, s, [])
      else
        (case validateMousePosition test_env provider \<lparr>p_x = x, p_y = y\<rparr> s of
           (Inl e, s1, calls) \<Rightarrow>
             (plain False (''Failed to click at position: '' @ e) None, s1, calls)
         | (Inr u, s1, calls) \<Rightarrow>
             (case validateMouseButton button of
                Inl e \<Rightarrow> (plain False (''Failed to click at position: '' @ e) None, s1, calls)
              | Inr validatedButton \<Rightarrow>
                  if \<not> has_mouse provider
                  then (plain False
                          (''Failed to click at position: '' @ ''Mouse provider not available'')
                          None, s1, calls)
                  else finish ''Failed to click at position: ''
                         (mouse_clickAt provider x y validatedButton s1)
                         (calls @ [Call_clickAt x y validatedButton]))))"

section \<open>The tool-call handler\<close>

text \<open>
  What the handler answers: the envelope rendered as text, the image content of a
  screenshot, or the text of an error raised while dispatching.
\<close>

datatype tool_result =
    TextResult WindowsControlResponse
  | ImageResult "ImageContent list"
  | ErrorResult string

definition render :: "WindowsControlResponse \<Rightarrow> tool_result" where
  "render response =
     (case content response of
        Some (c # cs) \<Rightarrow> if c_type c = ''image'' then ImageResult (c # cs) else TextResult response
      | _ \<Rightarrow> TextResult response)"

definition is_string :: "jv option \<Rightarrow> bool" where
  "is_string v = (case v of Some (JStr t) \<Rightarrow> True | _ \<Rightarrow> False)"

text \<open>
  The \<^verbatim>\<open>switch\<close> of the handler. The two unsupported window tools are answered in the
  handler itself. Every other case validates its arguments and calls an imported tool
  function; these are the parameter \<open>tools\<close>, which maps the tool name, the arguments
  and the provider's state to the thrown error or the envelope, and the new state.
\<close>

definition callTool ::
  "(string \<Rightarrow> (string \<times> jv) list \<Rightarrow> 's \<Rightarrow> (string + WindowsControlResponse) \<times> 's) \<Rightarrow>
     string \<Rightarrow> (string \<times> jv) list \<Rightarrow> 's \<Rightarrow> tool_result \<times> 's" where
  "callTool tools name args s =
     (if name = ''minimize_window'' then
        (if \<not> is_string (map_of args ''title'')
         then (ErrorResult (''Error: '' @ ''Invalid window title argument''), s)
         else (render (plain False ''Minimize window operation is not supported'' None), s))
      else if name = ''restore_window'' then
        (if \<not> is_string (map_of args ''title'')
         then (ErrorResult (''Error: '' @ ''Invalid window title argument''), s)
         else (render (plain False ''Restore window operation is not supported'' None), s))
      else
        (case tools name args s of
           (Inl e, s') \<Rightarrow> (ErrorResult (''Error: '' @ e), s')
         | (Inr response, s') \<Rightarrow> (render response, s')))"

section \<open>Predicates used in the statements\<close>

text \<open>A candidate passes geometry validation: its view query returns a valid view.\<close>

definition passesGeometry :: "'s keysender \<Rightarrow> 's \<Rightarrow> win \<Rightarrow> bool" where
  "passesGeometry b s w =
     (case hw_getView b (w_handle w) s of Inl e \<Rightarrow> False | Inr v \<Rightarrow> validView v)"

text \<open>
  A coordinate outside \<open>[-10000, 10000]\<close>, and the positions the validation rejects:
  \<^verbatim>\<open>NaN\<close> in either coordinate, or, outside a test environment, a coordinate out of
  that interval.
\<close>

definition out_of_range :: "jsnum \<Rightarrow> bool" where
  "out_of_range n = (js_lt n (Num (- 10000)) \<or> js_gt n (Num 10000))"

definition rejected :: "bool \<Rightarrow> MousePosition \<Rightarrow> bool" where
  "rejected test_env position =
     (isNaN (p_x position) \<or> isNaN (p_y position) \<or>
      (\<not> test_env \<and> (out_of_range (p_x position) \<or> out_of_range (p_y position))))"

text \<open>The envelope invariant: a failure carries no payload.\<close>

definition failure_has_no_data :: "WindowsControlResponse \<Rightarrow> bool" where
  "failure_has_no_data r = (\<not> success r \<longrightarrow> data r = None)"


text \<open>
  The two ways a mouse tool ends: with the envelope a call on the provider returned, or
  with the failure its own \<^verbatim>\<open>catch\<close> builds from a caught error, the tool's prefix
  followed by the error's text, without data.
\<close>

definition tool_outcome ::
  "string \<Rightarrow> WindowsControlResponse \<Rightarrow> (WindowsControlResponse \<Rightarrow> bool) \<Rightarrow> (string \<Rightarrow> bool) \<Rightarrow> bool"
  where
  "tool_outcome what r returned caught =
     (returned r \<or> (\<exists>m. caught m \<and> r = plain False (what @ m) None))"


section \<open>The matching tiers as the specification words them\<close>

text \<open>
  The three predicates one at a time, and the ordered fallback of the specification:
  the first non-empty tier is the candidate set.
\<close>

definition tier_exact :: "string \<Rightarrow> win list \<Rightarrow> win list" where
  "tier_exact t ws = filter (\<lambda>w. w_title w = t) ws"

definition tier_substring :: "string \<Rightarrow> win list \<Rightarrow> win list" where
  "tier_substring t ws = filter (\<lambda>w. str_includes (w_title w) t) ws"

definition tier_caseless :: "string \<Rightarrow> win list \<Rightarrow> win list" where
  "tier_caseless t ws = filter (\<lambda>w. str_includes (toLowerCase (w_title w)) (toLowerCase t)) ws"

definition tiered_match :: "string \<Rightarrow> win list \<Rightarrow> win list" where
  "tiered_match t ws =
     (if tier_exact t ws \<noteq> [] then tier_exact t ws
      else if tier_substring t ws \<noteq> [] then tier_substring t ws
      else tier_caseless t ws)"

text \<open>The union of the three tiers, in the order of the enumeration.\<close>

definition tier_union :: "string \<Rightarrow> win list \<Rightarrow> win list" where
  "tier_union t ws =
     filter (\<lambda>w. w \<in> set (tier_exact t ws) \<union> set (tier_substring t ws) \<union>
                      set (tier_caseless t ws)) ws"

section \<open>Concrete backends\<close>

text \<open>
  The backend of the repository's test suite: one window, a fixed view, every call
  succeeding, \<^verbatim>\<open>setView\<close> without effect. The native state is the handle of the
  current work window.
\<close>

definition testWindow :: win where
  "testWindow = \<lparr>w_title = ''Test Window'', w_className = ''TestClass'', w_handle = 12345\<rparr>"

definition testView :: view where
  "testView = \<lparr>v_x = 100, v_y = 200, v_width = 800, v_height = 600\<rparr>"

definition fullCapture :: capture where
  "fullCapture = \<lparr>cap_data = [1, 2, 3, 4], cap_width = 1920, cap_height = 1080\<rparr>"

definition mock :: "int keysender" where
  "mock =
     \<lparr>getAllWindows = (\<lambda>s. Inr [testWindow]),
      getWindowChildren = (\<lambda>h s. Inr []),
      hw_getView = (\<lambda>h s. Inr testView),
      hw_get = (\<lambda>h s. Inr ()),
      ww_set = (\<lambda>h s. (None, h)),
      ww_setForeground = (\<lambda>s. (None, s)),
      ww_isForeground = (\<lambda>s. Inr True),
      ww_isOpen = (\<lambda>s. Inr True),
      ww_getView = (\<lambda>s. Inr testView),
      ww_setView = (\<lambda>v s. (None, s)),
      ww_capture = (\<lambda>r s. Inr fullCapture),
      GetSystemMetrics = (\<lambda>i s. Inr (if i = 0 then 1920 else if i = 1 then 1080 else 0))\<rparr>"

text \<open>Two windows, neither with a usable view: one query throws, one reports width 0.\<close>

definition secondWindow :: win where
  "secondWindow = \<lparr>w_title = ''Test Window 2'', w_className = ''TestClass'', w_handle = 7\<rparr>"

definition no_view :: "int keysender" where
  "no_view =
     mock\<lparr>getAllWindows := (\<lambda>s. Inr [testWindow, secondWindow]),
          hw_getView := (\<lambda>h s. if h = 12345 then Inl ''window is gone''
                                else Inr \<lparr>v_x = 0, v_y = 0, v_width = 0, v_height = 600\<rparr>)\<rparr>"

text \<open>No window at all.\<close>

definition no_windows :: "int keysender" where
  "no_windows = mock\<lparr>getAllWindows := (\<lambda>s. Inr [])\<rparr>"

text \<open>Two windows that both match "Notepad", the second one exactly.\<close>

definition myNotepad :: win where
  "myNotepad = \<lparr>w_title = ''my notepad'', w_className = ''Edit'', w_handle = 1\<rparr>"

definition plainNotepad :: win where
  "plainNotepad = \<lparr>w_title = ''Notepad'', w_className = ''Notepad'', w_handle = 2\<rparr>"

definition two_notepads :: "int keysender" where
  "two_notepads = mock\<lparr>getAllWindows := (\<lambda>s. Inr [myNotepad, plainNotepad])\<rparr>"

text \<open>Every call that follows resolution in \<^verbatim>\<open>focusWindow\<close> throws.\<close>

definition all_throw :: "int keysender" where
  "all_throw =
     mock\<lparr>getWindowChildren := (\<lambda>h s. Inl ''children failed''),
          ww_set := (\<lambda>h s. (Some ''set failed'', s)),
          ww_setForeground := (\<lambda>s. (Some ''setForeground failed'', s)),
          ww_isForeground := (\<lambda>s. Inl ''isForeground failed''),
          ww_isOpen := (\<lambda>s. Inl ''isOpen failed'')\<rparr>"



text \<open>The capture is an empty buffer.\<close>

definition empty_capture :: "int keysender" where
  "empty_capture = mock\<lparr>ww_capture := (\<lambda>r s. Inr \<lparr>cap_data = [], cap_width = 0, cap_height = 0\<rparr>)\<rparr>"

subsection \<open>Image libraries\<close>

text \<open>
  An image library whose import rejects, one whose pipeline raises, and one that
  encodes every input.
\<close>

definition no_sharp :: sharp where
  "no_sharp = \<lparr>sharp_import = Some ''Cannot find package sharp'', sharp_toBuffer = (\<lambda>buf ops. Inr buf)\<rparr>"

definition broken_sharp :: sharp where
  "broken_sharp = \<lparr>sharp_import = None, sharp_toBuffer = (\<lambda>buf ops. Inl ''Input buffer has wrong size'')\<rparr>"

definition good_sharp :: sharp where
  "good_sharp = \<lparr>sharp_import = None, sharp_toBuffer = (\<lambda>buf ops. Inr [255, 216, 255])\<rparr>"

subsection \<open>Providers for the mouse tools\<close>

text \<open>
  Every capability answers with success, the native state counting the mouse actions
  performed; and the same provider with a mouse move that throws.
\<close>

definition mock_provider :: "nat AutomationProvider" where
  "mock_provider =
     \<lparr>has_mouse = True,
      mouse_moveMouse = (\<lambda>p s. (Inr (plain True ''Mouse moved'' None), Suc s)),
      mouse_clickMouse = (\<lambda>b s. (Inr (plain True ''Mouse clicked'' None), Suc s)),
      mouse_doubleClick = (\<lambda>p s. (Inr (plain True ''Double clicked'' None), Suc s)),
      mouse_getCursorPosition =
        (\<lambda>s. (Inr (plain True ''Cursor position''
                     (Some [(''x'', JNum 10), (''y'', JNum 20)])), s)),
      mouse_scrollMouse = (\<lambda>a s. (Inr (plain True ''Scrolled'' None), Suc s)),
      mouse_clickAt = (\<lambda>x y b s. (Inr (plain True ''Clicked'' None), Suc s)),
      mouse_dragMouse = (\<lambda>p q b s. (Inr (plain True ''Dragged'' None), Suc s)),
      has_getScreenSize = True,
      screen_getScreenSize =
        (\<lambda>s. (Inr (plain True ''Screen size retrieved successfully''
                     (Some [(''width'', JNum 1920), (''height'', JNum 1080)])), s))\<rparr>"


definition farRight :: MousePosition where
  "farRight = \<lparr>p_x = Num 20000, p_y = Num 0\<rparr>"

definition origin :: MousePosition where
  "origin = \<lparr>p_x = Num 0, p_y = Num 0\<rparr>"

text \<open>Imported tool functions that know no tool.\<close>

definition no_tools ::
  "string \<Rightarrow> (string \<times> jv) list \<Rightarrow> int \<Rightarrow> (string + WindowsControlResponse) \<times> int" where
  "no_tools name args s = (Inl (''Unknown tool: '' @ name), s)"

section \<open>Window resolution\<close>

lemma firstValid_None: "(firstValid b s ws = None) = (\<forall>w \<in> set ws. \<not> passesGeometry b s w)"
  by (induction ws) (auto simp: passesGeometry_def split: sum.splits)

lemma candidates_nonempty: "candidates targetTitle allWindows = Some ms \<Longrightarrow> ms \<noteq> []"
  by (auto simp: candidates_def Let_def split: if_splits)

text \<open>
  C6. Whenever resolution reaches its loop with candidates \<open>c # cs\<close> (the candidate list
  is never empty there, \<open>candidates_nonempty\<close>) and no candidate passes geometry
  validation, because its view query throws or the view has a non-positive width or
  height or an origin coordinate at or below \<open>-10000\<close>, resolution does not fail: it
  returns the first candidate \<open>c\<close> with the rectangle \<open>{x:0, y:0, width:800, height:600}\<close>.
\<close>

theorem fallback_view_when_no_candidate_valid:
  assumes "getAllWindows b s = Inr allWindows"
    and "candidates targetTitle allWindows = Some (c # cs)"
    and "\<forall>w \<in> set (c # cs). \<not> passesGeometry b s w"
  shows "findSuitableWindow b targetTitle s =
           Some (c, \<lparr>v_x = 0, v_y = 0, v_width = 800, v_height = 600\<rparr>)"
proof -
  have "firstValid b s (c # cs) = None"
    using assms(3) by (simp only: firstValid_None)
  then show ?thesis
    using assms(1,2) by (simp add: findSuitableWindow_def fallbackView_def)
qed

theorem fallback_view_when_no_candidate_valid_witness:
  "getAllWindows no_view 0 = Inr [testWindow, secondWindow] \<and>
   candidates (Some ''Test'') [testWindow, secondWindow] = Some [testWindow, secondWindow] \<and>
   \<not> passesGeometry no_view 0 testWindow \<and> \<not> passesGeometry no_view 0 secondWindow \<and>
   findSuitableWindow no_view (Some ''Test'') 0 =
     Some (testWindow, \<lparr>v_x = 0, v_y = 0, v_width = 800, v_height = 600\<rparr>)"
proof -
  have 1: "getAllWindows no_view 0 = Inr [testWindow, secondWindow]"
    by (simp add: no_view_def mock_def)
  have 2: "candidates (Some ''Test'') [testWindow, secondWindow] = Some [testWindow, secondWindow]"
    by code_simp
  have 3: "\<forall>w \<in> set [testWindow, secondWindow]. \<not> passesGeometry no_view 0 w"
    by (simp add: passesGeometry_def no_view_def mock_def validView_def testWindow_def
        secondWindow_def)
  show ?thesis
    using 1 2 3 fallback_view_when_no_candidate_valid [OF 1 2 3] by simp
qed

section \<open>Empty enumeration, and focus after resolution\<close>

lemma str_includes_sublist: "str_includes s t = sublist t s"
  by (induction s) (auto simp: sublist_Cons_right)

lemma str_includes_append: "str_includes (xs @ t) t"
  by (simp add: str_includes_sublist)

lemma findSuitableWindow_empty: "getAllWindows b s = Inr [] \<Longrightarrow> findSuitableWindow b t s = None"
  by (simp add: findSuitableWindow_def candidates_def)

text \<open>
  C5. When window enumeration returns an empty list, \<^verbatim>\<open>focusWindow(title)\<close> returns
  \<open>success = false\<close>, without data, with the message
  "Could not find window with title: " followed by the searched title, while
  \<^verbatim>\<open>getActiveWindow()\<close> returns \<open>success = true\<close> with the placeholder descriptor
  (title and class name "Unknown", handle 0, position and size zero). Neither changes
  the native state.
\<close>

theorem empty_enumeration_focus_fails_active_placeholder:
  assumes "getAllWindows b s = Inr []"
  shows "focusWindow b title s =
           (plain False (''Could not find window with title: '' @ title) None, s) \<and>
         str_includes (message (fst (focusWindow b title s))) title \<and>
         getActiveWindow b s =
           (plain True ''Active window: Unknown (no suitable window found)''
              (Some [(''title'', JStr ''Unknown''), (''className'', JStr ''Unknown''),
                     (''handle'', JNum 0),
                     (''position'', JObj [(''x'', JNum 0), (''y'', JNum 0)]),
                     (''size'', JObj [(''width'', JNum 0), (''height'', JNum 0)])]), s)"
proof -
  have f: "focusWindow b title s = (notFound title, s)"
    using assms by (simp add: focusWindow_def findSuitableWindow_empty)
  have a: "getActiveWindow b s =
      (plain True ''Active window: Unknown (no suitable window found)'' (Some unknownWindow), s)"
    using assms by (simp add: getActiveWindow_def findSuitableWindow_empty)
  have m: "str_includes (message (notFound title)) title"
    by (simp only: notFound_def plain_def WindowsControlResponse.simps str_includes_append)
  show ?thesis
    using f a m by (simp add: notFound_def unknownWindow_def)
qed

theorem empty_enumeration_focus_fails_active_placeholder_witness:
  "getAllWindows no_windows 0 = Inr [] \<and>
   \<not> success (fst (focusWindow no_windows ''X'' 0)) \<and>
   message (fst (focusWindow no_windows ''X'' 0)) = ''Could not find window with title: X'' \<and>
   success (fst (getActiveWindow no_windows 0))"
proof -
  have 1: "getAllWindows no_windows 0 = Inr []"
    by (simp add: no_windows_def)
  show ?thesis
    using 1 empty_enumeration_focus_fails_active_placeholder [OF 1, of "''X''"]
    by (simp add: plain_def)
qed

text \<open>
  C10. Once \<^verbatim>\<open>focusWindow\<close> has resolved a window for the title, it returns
  \<open>success = true\<close> whatever the later backend calls do (\<^verbatim>\<open>workwindow.set\<close>,
  \<^verbatim>\<open>setForeground\<close>, \<^verbatim>\<open>isForeground\<close>, \<^verbatim>\<open>isOpen\<close>, the child-window
  enumeration): title, class name, handle, position and size of the payload are those of
  the resolved window and view, and only the two flags and the message suffixes vary.
\<close>

theorem focus_succeeds_once_resolved:
  assumes "findSuitableWindow b (Some title) s = Some (w, v)"
  shows "success (fst (focusWindow b title s)) \<and>
         (\<exists>isForeground isOpen.
            fst (focusWindow b title s) =
              plain True
                (''Focused window: '' @ w_title w @
                   (if isForeground then '' (foreground)'' else []) @
                   (if isOpen then '' (open)'' else []))
                (Some (windowData w v @
                       [(''isForeground'', JBool isForeground), (''isOpen'', JBool isOpen)])))"
proof -
  let ?s2 = "snd (ww_setForeground b (snd (ww_set b (w_handle w) s)))"
  let ?fg = "orFalse (ww_isForeground b ?s2)"
  let ?op = "orFalse (ww_isOpen b ?s2)"
  have eq: "fst (focusWindow b title s) =
      plain True
        (''Focused window: '' @ w_title w @ (if ?fg then '' (foreground)'' else []) @
           (if ?op then '' (open)'' else []))
        (Some (windowData w v @ [(''isForeground'', JBool ?fg), (''isOpen'', JBool ?op)]))"
    using assms by (simp add: focusWindow_def Let_def)
  have "success (fst (focusWindow b title s))"
    by (simp only: eq plain_def WindowsControlResponse.simps)
  moreover have "\<exists>isForeground isOpen.
            fst (focusWindow b title s) =
              plain True
                (''Focused window: '' @ w_title w @
                   (if isForeground then '' (foreground)'' else []) @
                   (if isOpen then '' (open)'' else []))
                (Some (windowData w v @
                       [(''isForeground'', JBool isForeground), (''isOpen'', JBool isOpen)]))"
    using eq by blast
  ultimately show ?thesis by blast
qed

theorem focus_succeeds_once_resolved_witness:
  "findSuitableWindow all_throw (Some ''Test Window'') 0 = Some (testWindow, testView) \<and>
   success (fst (focusWindow all_throw ''Test Window'' 0)) \<and>
   data (fst (focusWindow all_throw ''Test Window'' 0)) =
     Some (windowData testWindow testView @
           [(''isForeground'', JBool False), (''isOpen'', JBool False)])"
proof -
  have 1: "findSuitableWindow all_throw (Some ''Test Window'') 0 = Some (testWindow, testView)"
    by code_simp
  have 2: "data (fst (focusWindow all_throw ''Test Window'' 0)) =
     Some (windowData testWindow testView @
           [(''isForeground'', JBool False), (''isOpen'', JBool False)])"
    by code_simp
  show ?thesis
    using 1 2 focus_succeeds_once_resolved [OF 1] by simp
qed

section \<open>The unsupported window tools\<close>

text \<open>
  C9. For every string title, whatever the imported tool functions and the provider's
  state are, \<^verbatim>\<open>minimize_window\<close> and \<^verbatim>\<open>restore_window\<close> answer the envelope
  \<open>success = false\<close> with a message containing "not supported"; the answer does not
  depend on the tool functions and the provider's state is returned untouched.
\<close>

theorem unsupported_window_tools:
  assumes "map_of args ''title'' = Some (JStr title)"
  shows "callTool tools ''minimize_window'' args s =
           (TextResult (plain False ''Minimize window operation is not supported'' None), s) \<and>
         callTool tools ''restore_window'' args s =
           (TextResult (plain False ''Restore window operation is not supported'' None), s) \<and>
         str_includes ''Minimize window operation is not supported'' ''not supported'' \<and>
         str_includes ''Restore window operation is not supported'' ''not supported''"
  using assms
  by (simp add: callTool_def is_string_def render_def plain_def)

theorem unsupported_window_tools_witness:
  "map_of [(''title'', JStr ''Notepad'')] ''title'' = Some (JStr ''Notepad'') \<and>
   callTool no_tools ''minimize_window'' [(''title'', JStr ''Notepad'')] 5 =
     (TextResult (plain False ''Minimize window operation is not supported'' None), 5) \<and>
   callTool no_tools ''restore_window'' [(''title'', JStr ''Notepad'')] 5 =
     (TextResult (plain False ''Restore window operation is not supported'' None), 5)"
proof -
  have 1: "map_of [(''title'', JStr ''Notepad'')] ''title'' = Some (JStr ''Notepad'')"
    by simp
  show ?thesis
    using 1 unsupported_window_tools [OF 1, of no_tools 5] by simp
qed

section \<open>Title matching\<close>

text \<open>
  C2, as stated, fails: the source filters once with the disjunction of the three
  predicates. With the windows "my notepad" and "Notepad" and the target "Notepad" the
  source keeps both windows, the ordered fallback keeps the exact match only, and
  resolution returns "my notepad".
\<close>

theorem tiers_counterexample:
  "matchingWindows (Some ''Notepad'') [myNotepad, plainNotepad] = [myNotepad, plainNotepad] \<and>
   tiered_match ''Notepad'' [myNotepad, plainNotepad] = [plainNotepad] \<and>
   findSuitableWindow two_notepads (Some ''Notepad'') 0 = Some (myNotepad, testView)"
  by code_simp

lemma tier_union_matching:
  "t \<noteq> [] \<Longrightarrow> matchingWindows (Some t) ws = tier_union t ws"
  by (auto simp: matchingWindows_def tier_union_def tier_exact_def tier_substring_def
      tier_caseless_def intro!: filter_cong)

lemma firstValid_member: "firstValid b s ws = Some (w, v) \<Longrightarrow> w \<in> set ws"
  by (induction ws) (auto split: sum.splits if_splits)

text \<open>
  C2, amended. For every non-empty target title the candidate set of window resolution is
  the union of the three tiers whenever that union is not empty: every titled window, in
  enumeration order, whose title equals the target, contains it, or contains it ignoring
  case. When the union is empty, resolution returns nothing, except for the title
  "Unknown", where the preferred applications or else all titled windows are the
  candidates. So for a title other than "Unknown" resolution returns the first window of
  the union with a valid view, or else the head of the union with the default view, and
  every window it returns satisfies one of the three predicates.
\<close>

theorem candidates_are_union_of_tiers:
  assumes "t \<noteq> []"
  shows "candidates (Some t) allWindows =
           (let wt = windowsWithTitle allWindows; u = tier_union t wt in
            if u \<noteq> [] then Some u
            else if t = ''Unknown'' \<and> wt \<noteq> []
              then Some (if preferredWindows wt \<noteq> [] then preferredWindows wt else wt)
            else None) \<and>
         (getAllWindows b s = Inr allWindows \<longrightarrow> t \<noteq> ''Unknown'' \<longrightarrow>
            findSuitableWindow b (Some t) s =
              (let u = tier_union t (windowsWithTitle allWindows) in
               case firstValid b s u of
                 Some r \<Rightarrow> Some r
               | None \<Rightarrow> (case u of [] \<Rightarrow> None | w # rest \<Rightarrow> Some (w, fallbackView))) \<and>
            (\<forall>w v. findSuitableWindow b (Some t) s = Some (w, v) \<longrightarrow>
               w \<in> set allWindows \<and>
               (w_title w = t \<or> str_includes (w_title w) t \<or>
                str_includes (toLowerCase (w_title w)) (toLowerCase t))))"
proof -
  let ?wt = "windowsWithTitle allWindows"
  let ?u = "tier_union t ?wt"
  have wt: "allWindows = [] \<Longrightarrow> ?wt = []"
    by (simp add: windowsWithTitle_def)
  have u0: "?wt = [] \<Longrightarrow> ?u = []"
    by (simp add: tier_union_def)
  have c: "candidates (Some t) allWindows =
           (if ?u \<noteq> [] then Some ?u
            else if t = ''Unknown'' \<and> ?wt \<noteq> []
              then Some (if preferredWindows ?wt \<noteq> [] then preferredWindows ?wt else ?wt)
            else None)"
    using assms wt u0
    by (auto simp: candidates_def Let_def tier_union_matching)
  have f: "findSuitableWindow b (Some t) s =
              (case firstValid b s ?u of
                 Some r \<Rightarrow> Some r
               | None \<Rightarrow> (case ?u of [] \<Rightarrow> None | w # rest \<Rightarrow> Some (w, fallbackView)))"
    if "getAllWindows b s = Inr allWindows" "t \<noteq> ''Unknown''"
    using that by (simp add: findSuitableWindow_def c)
  have sub: "set ?u \<subseteq> {w \<in> set allWindows. w_title w = t \<or> str_includes (w_title w) t \<or>
                str_includes (toLowerCase (w_title w)) (toLowerCase t)}"
    by (auto simp: tier_union_def tier_exact_def tier_substring_def tier_caseless_def
        windowsWithTitle_def)
  have m: "w \<in> set ?u"
    if "findSuitableWindow b (Some t) s = Some (w, v)" "getAllWindows b s = Inr allWindows"
      "t \<noteq> ''Unknown''" for w v
    using that(1) firstValid_member [of b s ?u w v]
    unfolding f [OF that(2,3)]
    by (auto split: option.splits list.splits)
  show ?thesis
    using c f m sub by (simp add: Let_def) blast
qed

theorem candidates_are_union_of_tiers_witness:
  "''Notepad'' \<noteq> [] \<and> ''Notepad'' \<noteq> ''Unknown'' \<and>
   getAllWindows two_notepads 0 = Inr [myNotepad, plainNotepad] \<and>
   tier_exact ''Notepad'' [myNotepad, plainNotepad] = [plainNotepad] \<and>
   tier_substring ''Notepad'' [myNotepad, plainNotepad] = [plainNotepad] \<and>
   tier_caseless ''Notepad'' [myNotepad, plainNotepad] = [myNotepad, plainNotepad] \<and>
   candidates (Some ''Notepad'') [myNotepad, plainNotepad] = Some [myNotepad, plainNotepad] \<and>
   findSuitableWindow two_notepads (Some ''Notepad'') 0 = Some (myNotepad, testView)"
proof -
  have 1: "''Notepad'' \<noteq> []" by simp
  have 2: "tier_exact ''Notepad'' [myNotepad, plainNotepad] = [plainNotepad]"
    "tier_substring ''Notepad'' [myNotepad, plainNotepad] = [plainNotepad]"
    "tier_caseless ''Notepad'' [myNotepad, plainNotepad] = [myNotepad, plainNotepad]"
    by code_simp+
  have 3: "myNotepad \<noteq> plainNotepad" by code_simp
  have 4: "windowsWithTitle [myNotepad, plainNotepad] = [myNotepad, plainNotepad]" by code_simp
  have 5: "getAllWindows two_notepads 0 = Inr [myNotepad, plainNotepad]"
    by (simp add: two_notepads_def)
  have 6: "firstValid two_notepads 0 [myNotepad, plainNotepad] = Some (myNotepad, testView)"
    by code_simp
  have 7: "tier_union ''Notepad'' [myNotepad, plainNotepad] = [myNotepad, plainNotepad]"
    using 3 by (simp add: tier_union_def 2)
  have 8: "''Notepad'' \<noteq> ''Unknown''" by simp
  note th = candidates_are_union_of_tiers [OF 1, of "[myNotepad, plainNotepad]" two_notepads 0]
  have 9: "candidates (Some ''Notepad'') [myNotepad, plainNotepad] = Some [myNotepad, plainNotepad]"
    using th [THEN conjunct1] unfolding 4 7 Let_def by simp
  have 10: "findSuitableWindow two_notepads (Some ''Notepad'') 0 = Some (myNotepad, testView)"
    using th [THEN conjunct2, rule_format, OF 5 8, THEN conjunct1] unfolding 4 7 Let_def 6 by simp
  show ?thesis
    using 1 8 5 2 9 10 by (simp only: simp_thms)
qed

section \<open>Mouse position validation\<close>

lemma digits_small: "n < 10 \<Longrightarrow> digits n = [digit n]"
  by (simp add: digits.simps)

lemma digits_large: "10 \<le> n \<Longrightarrow> digits n = digits (n div 10) @ [digit (n mod 10)]"
  by (simp add: digits.simps)

lemmas num_str_eval = num_str_def digits_small digits_large digit_def

lemma pos_str_farRight: "pos_str farRight = ''(20000,0)''"
  by (simp add: pos_str_def farRight_def num_str_eval)

lemma screenBoundsCheck_calls:
  "screenBoundsCheck provider position s = (r, s', calls) \<Longrightarrow> \<not> list_ex is_mouse_call calls"
  by (auto simp: screenBoundsCheck_def split: if_splits prod.splits sum.splits option.splits)

lemma validate_calls:
  "validateMousePosition test_env provider position s = (r, s', calls) \<Longrightarrow>
     \<not> list_ex is_mouse_call calls"
  by (auto simp: validateMousePosition_def boundsChecks_def
      split: if_splits prod.splits sum.splits dest: screenBoundsCheck_calls)

lemma validate_farRight_test:
  "validateMousePosition True mock_provider farRight s = (Inr (), s, [])"
  by (simp add: validateMousePosition_def boundsChecks_def farRight_def isNaN_def
      MAX_ALLOWED_COORDINATE_def)

lemma button_left: "validateMouseButton ''left'' = Inr ''left''"
  by (simp add: validateMouseButton_def)

text \<open>
  C3 fails in a test environment. The check against \<open>[-10000, 10000]\<close> is thrown inside
  the \<^verbatim>\<open>try\<close> whose \<^verbatim>\<open>catch\<close> lets every error through when \<^verbatim>\<open>NODE_ENV\<close> is
  \<^verbatim>\<open>test\<close> or \<^verbatim>\<open>VITEST\<close> is set, although the source comments it as the check that
  always applies and the \<^verbatim>\<open>catch\<close> speaks of the screen bounds only. So the position
  \<open>(20000, 0)\<close> is out of range, and yet \<^verbatim>\<open>moveMouse\<close>, \<^verbatim>\<open>clickAt\<close> and
  \<^verbatim>\<open>dragMouse\<close> answer \<open>success = true\<close> there and the position reaches
  \<^verbatim>\<open>provider.mouse\<close>.
\<close>

theorem test_environment_forwards_out_of_range:
  "out_of_range (p_x farRight) \<and>
   moveMouse True mock_provider farRight 0 =
     (plain True ''Mouse moved'' None, 1, [Call_moveMouse farRight]) \<and>
   clickAt True mock_provider (Num 20000) (Num 0) ''left'' 0 =
     (plain True ''Clicked'' None, 1, [Call_clickAt (Num 20000) (Num 0) ''left'']) \<and>
   dragMouse True mock_provider farRight farRight ''left'' 0 =
     (plain True ''Dragged'' None, 1, [Call_dragMouse farRight farRight ''left''])"
proof -
  have 0: "out_of_range (p_x farRight)"
    by (simp add: out_of_range_def farRight_def)
  have 1: "moveMouse True mock_provider farRight 0 =
     (plain True ''Mouse moved'' None, 1, [Call_moveMouse farRight])"
    by (simp add: moveMouse_def validate_farRight_test) (simp add: mock_provider_def finish_def)
  have 2: "clickAt True mock_provider (Num 20000) (Num 0) ''left'' 0 =
     (plain True ''Clicked'' None, 1, [Call_clickAt (Num 20000) (Num 0) ''left''])"
    using validate_farRight_test [of 0]
    by (simp add: clickAt_def isNaN_def farRight_def button_left)
       (simp add: mock_provider_def finish_def)
  have 3: "dragMouse True mock_provider farRight farRight ''left'' 0 =
     (plain True ''Dragged'' None, 1, [Call_dragMouse farRight farRight ''left''])"
    by (simp add: dragMouse_def validate_farRight_test button_left)
       (simp add: mock_provider_def finish_def)
  show ?thesis using 0 1 2 3 by blast
qed



lemma validate_rejects_fixed:
  assumes "rejected test_env position"
  shows "\<exists>e. \<forall>s. validateMousePosition test_env provider position s = (Inl e, s, [])"
proof (cases "isNaN (p_x position) \<or> isNaN (p_y position)")
  case True
  then show ?thesis
    by (simp add: validateMousePosition_def)
next
  case False
  with assms have t: "\<not> test_env"
    and "out_of_range (p_x position) \<or> out_of_range (p_y position)"
    by (simp_all add: rejected_def)
  then have c: "js_lt (p_x position) (Num (- MAX_ALLOWED_COORDINATE)) \<or>
         js_gt (p_x position) (Num MAX_ALLOWED_COORDINATE) \<or>
         js_lt (p_y position) (Num (- MAX_ALLOWED_COORDINATE)) \<or>
         js_gt (p_y position) (Num MAX_ALLOWED_COORDINATE)"
    by (simp add: out_of_range_def MAX_ALLOWED_COORDINATE_def)
  show ?thesis
    using False t by (simp add: validateMousePosition_def boundsChecks_def c)
qed

text \<open>
  Where the position is rejected, that is with \<^verbatim>\<open>NaN\<close> in a coordinate, or outside a
  test environment with a coordinate outside \<open>[-10000, 10000]\<close>, the three tools
  (\<^verbatim>\<open>dragMouse\<close> with the position as either end) return \<open>success = false\<close> and
  make no call on \<^verbatim>\<open>provider.mouse\<close>; unless the bad position is the second end of
  a drag, no provider call is made at all and the native state is unchanged.
\<close>

theorem invalid_position_never_reaches_mouse:
  assumes "rejected test_env position"
  shows "\<not> success (fst (moveMouse test_env provider position s)) \<and>
         snd (moveMouse test_env provider position s) = (s, []) \<and>
         \<not> success (fst (clickAt test_env provider (p_x position) (p_y position) button s)) \<and>
         snd (clickAt test_env provider (p_x position) (p_y position) button s) = (s, []) \<and>
         \<not> success (fst (dragMouse test_env provider position other button s)) \<and>
         snd (dragMouse test_env provider position other button s) = (s, []) \<and>
         \<not> success (fst (dragMouse test_env provider other position button s)) \<and>
         \<not> list_ex is_mouse_call (snd (snd (dragMouse test_env provider other position button s)))"
proof -
  obtain e where v: "\<And>s. validateMousePosition test_env provider position s = (Inl e, s, [])"
    using validate_rejects_fixed [OF assms, of provider] by blast
  have m: "moveMouse test_env provider position s =
      (plain False (''Failed to move mouse: '' @ e) None, s, [])"
    by (simp add: moveMouse_def v)
  have c: "\<not> success (fst (clickAt test_env provider (p_x position) (p_y position) button s)) \<and>
         snd (clickAt test_env provider (p_x position) (p_y position) button s) = (s, [])"
    using v [of s] by (cases position) (simp add: clickAt_def plain_def)
  have d1: "dragMouse test_env provider position other button s =
      (plain False (''Failed to drag mouse: '' @ e) None, s, [])"
    by (simp add: dragMouse_def v)
  obtain r s1 calls where o: "validateMousePosition test_env provider other s = (r, s1, calls)"
    by (metis prod_cases3)
  have nc: "\<not> list_ex is_mouse_call calls"
    using validate_calls [OF o] .
  have d2: "\<not> success (fst (dragMouse test_env provider other position button s)) \<and>
         \<not> list_ex is_mouse_call (snd (snd (dragMouse test_env provider other position button s)))"
    using nc by (cases r) (simp_all add: dragMouse_def o v plain_def)
  show ?thesis
    using m c d1 d2 by (simp add: plain_def)
qed

lemma validate_origin:
  "validateMousePosition False mock_provider origin s = (Inr (), s, [Call_getScreenSize])"
  by (simp add: validateMousePosition_def boundsChecks_def origin_def isNaN_def
      MAX_ALLOWED_COORDINATE_def screenBoundsCheck_def mock_provider_def plain_def num_field_def)

lemma validate_farRight:
  "validateMousePosition False mock_provider farRight s =
     (Inl (''Position (20000,0) is outside reasonable bounds '' @
           ''(-10000, -10000)-(10000, 10000)''), s, [])"
  by (simp add: validateMousePosition_def boundsChecks_def isNaN_def pos_str_farRight)
     (simp add: farRight_def MAX_ALLOWED_COORDINATE_def num_str_eval)

theorem invalid_position_never_reaches_mouse_witness:
  "rejected False farRight \<and>
   moveMouse False mock_provider farRight 0 =
     (plain False (''Failed to move mouse: Position (20000,0) is outside reasonable bounds '' @
                   ''(-10000, -10000)-(10000, 10000)'') None, 0, []) \<and>
   \<not> success (fst (dragMouse False mock_provider origin farRight ''left'' 0)) \<and>
   snd (snd (dragMouse False mock_provider origin farRight ''left'' 0)) = [Call_getScreenSize]"
proof -
  have 1: "rejected False farRight"
    by (simp add: rejected_def farRight_def out_of_range_def)
  have 2: "moveMouse False mock_provider farRight 0 =
     (plain False (''Failed to move mouse: Position (20000,0) is outside reasonable bounds '' @
                   ''(-10000, -10000)-(10000, 10000)'') None, 0, [])"
    by (simp add: moveMouse_def validate_farRight)
  have 3: "snd (snd (dragMouse False mock_provider origin farRight ''left'' 0)) = [Call_getScreenSize]"
    by (simp add: dragMouse_def validate_origin validate_farRight)
  show ?thesis
    using 1 2 3 invalid_position_never_reaches_mouse [OF 1, of mock_provider 0 "''left''" origin]
    by simp
qed

section \<open>Resize and reposition\<close>

lemma find_test_window:
  "findSuitableWindow mock (Some ''Test Window'') s = Some (testWindow, testView)"
  by code_simp

lemma focus_test_window:
  "focusWindow mock ''Test Window'' 0 =
     (plain True ''Focused window: Test Window (foreground) (open)''
        (Some (windowData testWindow testView @
               [(''isForeground'', JBool True), (''isOpen'', JBool True)])), 12345)"
  by (simp add: focusWindow_def find_test_window)
     (simp add: mock_def orFalse_def testWindow_def)

lemma begin_test_window:
  "updateWindowPosition_begin mock ''Test Window'' None None (Some 1024) (Some 768) 0 =
     (Inr \<lparr>pend_title = ''Test Window'', pend_handle = 12345,
           pend_newView = \<lparr>v_x = 100, v_y = 200, v_width = 1024, v_height = 768\<rparr>\<rparr>, 12345)"
  by (simp add: updateWindowPosition_begin_def focus_test_window)
     (simp add: plain_def windowData_def testWindow_def testView_def mock_def or_str_def
        or_num_def)

text \<open>
  C1 at the backend of the test suite. \<^verbatim>\<open>resizeWindow("Test Window", 1024, 768)\<close>
  returns as soon as the part of \<^verbatim>\<open>updateWindowPosition\<close> before the delay has run:
  its payload has handle 0, position \<open>(0, 0)\<close>, the requested size and
  \<open>isForeground = false\<close>, while the view read back afterwards is 800 by 600 at
  \<open>(100, 200)\<close> and the window is in the foreground, which is what the awaited promise
  reports. With no window at all \<^verbatim>\<open>repositionWindow\<close> still answers success, and the
  promise holds the not-found failure.
\<close>

theorem resize_returns_before_reread:
  "ww_getView mock 12345 = Inr \<lparr>v_x = 100, v_y = 200, v_width = 800, v_height = 600\<rparr> \<and>
   ww_isForeground mock 12345 = Inr True \<and>
   success (fst (resizeWindow mock ''Test Window'' 1024 768 0)) \<and>
   data (fst (resizeWindow mock ''Test Window'' 1024 768 0)) =
     Some [(''title'', JStr ''Test Window''), (''handle'', JNum 0),
           (''position'', JObj [(''x'', JNum 0), (''y'', JNum 0)]),
           (''size'', JObj [(''width'', JNum 1024), (''height'', JNum 768)]),
           (''isForeground'', JBool False),
           (''requestedSize'', JObj [(''width'', JNum 1024), (''height'', JNum 768)])] \<and>
   snd (resizeWindow mock ''Test Window'' 1024 768 0) = 12345 \<and>
   data (fst (updateWindowPosition mock ''Test Window'' None None (Some 1024) (Some 768) resize 0)) =
     Some [(''title'', JStr ''Test Window''), (''handle'', JNum 12345),
           (''position'', JObj [(''x'', JNum 100), (''y'', JNum 200)]),
           (''size'', JObj [(''width'', JNum 800), (''height'', JNum 600)]),
           (''isForeground'', JBool True),
           (''requestedSize'', JObj [(''width'', JNum 1024), (''height'', JNum 768)])] \<and>
   success (fst (repositionWindow no_windows ''Test Window'' 50 100 0)) \<and>
   data (fst (repositionWindow no_windows ''Test Window'' 50 100 0)) =
     Some [(''title'', JStr ''Test Window''), (''handle'', JNum 0),
           (''position'', JObj [(''x'', JNum 50), (''y'', JNum 100)]),
           (''size'', JObj [(''width'', JNum 0), (''height'', JNum 0)]),
           (''isForeground'', JBool False),
           (''requestedPosition'', JObj [(''x'', JNum 50), (''y'', JNum 100)])] \<and>
   fst (updateWindowPosition no_windows ''Test Window'' (Some 50) (Some 100) None None reposition 0) =
     plain False ''Could not find window with title: Test Window'' None"
proof -
  have 1: "ww_getView mock 12345 = Inr \<lparr>v_x = 100, v_y = 200, v_width = 800, v_height = 600\<rparr>"
    "ww_isForeground mock 12345 = Inr True"
    by (simp_all add: mock_def testView_def)
  have 2: "resizeWindow mock ''Test Window'' 1024 768 0 =
     (plain True (''Resized window '' @ [dquote] @ ''Test Window'' @ [dquote] @ '' to '' @
               num_str 1024 @ ''x'' @ num_str 768)
        (Some [(''title'', JStr ''Test Window''), (''handle'', JNum 0),
           (''position'', JObj [(''x'', JNum 0), (''y'', JNum 0)]),
           (''size'', JObj [(''width'', JNum 1024), (''height'', JNum 768)]),
           (''isForeground'', JBool False),
           (''requestedSize'', JObj [(''width'', JNum 1024), (''height'', JNum 768)])]), 12345)"
    by (simp add: resizeWindow_def begin_test_window)
  have 3: "data (fst (updateWindowPosition mock ''Test Window'' None None (Some 1024) (Some 768) resize 0)) =
     Some [(''title'', JStr ''Test Window''), (''handle'', JNum 12345),
           (''position'', JObj [(''x'', JNum 100), (''y'', JNum 200)]),
           (''size'', JObj [(''width'', JNum 800), (''height'', JNum 600)]),
           (''isForeground'', JBool True),
           (''requestedSize'', JObj [(''width'', JNum 1024), (''height'', JNum 768)])]"
    by (simp add: updateWindowPosition_def begin_test_window updateWindowPosition_end_def)
       (simp add: mock_def testView_def orFalse_def or_num_def opt_or0_def plain_def)
  have f: "focusWindow no_windows ''Test Window'' 0 =
      (plain False ''Could not find window with title: Test Window'' None, 0)"
    by (simp add: focusWindow_def findSuitableWindow_empty no_windows_def notFound_def)
  have b: "updateWindowPosition_begin no_windows ''Test Window'' (Some 50) (Some 100) None None 0 =
     (Inl (plain False ''Could not find window with title: Test Window'' None), 0)"
    by (simp add: updateWindowPosition_begin_def f) (simp add: plain_def)
  have 4: "repositionWindow no_windows ''Test Window'' 50 100 0 =
     (plain True (''Repositioned window '' @ [dquote] @ ''Test Window'' @ [dquote] @ '' to ('' @
               num_str 50 @ '', '' @ num_str 100 @ '')'')
        (Some [(''title'', JStr ''Test Window''), (''handle'', JNum 0),
           (''position'', JObj [(''x'', JNum 50), (''y'', JNum 100)]),
           (''size'', JObj [(''width'', JNum 0), (''height'', JNum 0)]),
           (''isForeground'', JBool False),
           (''requestedPosition'', JObj [(''x'', JNum 50), (''y'', JNum 100)])]), 0)"
    by (simp add: repositionWindow_def b)
  have 5: "fst (updateWindowPosition no_windows ''Test Window'' (Some 50) (Some 100) None None reposition 0) =
     plain False ''Could not find window with title: Test Window'' None"
    by (simp add: updateWindowPosition_def b)
  show ?thesis
    using 1 3 5 by (simp add: 2 4 plain_def)
qed

section \<open>Screenshots\<close>

subsection \<open>Rounding to doubles\<close>

text \<open>
  \<open>double53\<close> is a rounding in the sense of \<open>double_rounding\<close>, so the statements
  below that assume \<open>double_rounding fl\<close> hold of it.
\<close>

lemma round_even_near: "\<bar>of_int (round_even r) - r\<bar> \<le> 1 / 2"
  unfolding round_even_def Let_def by (auto split: if_splits)

lemma double53_error: "\<bar>double53 x - x\<bar> \<le> \<bar>x\<bar> / 2 ^ 53"
proof (cases "x = 0")
  case True
  then show ?thesis by (simp add: double53_def)
next
  case False
  define E where "E = \<lfloor>log 2 \<bar>x\<bar>\<rfloor>"
  define p :: real where "p = 2 powr of_int (E - 52)"
  define m where "m = x / p"
  have p_pos: "p > 0" by (simp add: p_def)
  have ax: "\<bar>x\<bar> > 0" using False by simp
  have lo: "2 powr of_int E \<le> \<bar>x\<bar>"
    using floor_log_eq_powr_iff [of "\<bar>x\<bar>" 2 E] ax by (simp add: E_def)
  have a: "(2::real) powr of_int E = 2 powr 52 * 2 powr (of_int E - 52)"
    using powr_add [of "2::real" 52 "of_int E - 52"] by simp
  have lo': "2 ^ 52 * p \<le> \<bar>x\<bar>"
    using lo a by (simp add: p_def)
  have d: "double53 x = of_int (round_even m) * p"
    using False by (simp add: double53_def Let_def E_def p_def m_def)
  have x: "x = m * p" using p_pos by (simp add: m_def)
  have "double53 x - x = (of_int (round_even m) - m) * p"
    by (simp add: d x [symmetric] left_diff_distrib)
  then have "\<bar>double53 x - x\<bar> = \<bar>of_int (round_even m) - m\<bar> * p"
    using p_pos by (simp add: abs_mult)
  also have "\<dots> \<le> 1 / 2 * p"
    using round_even_near [of m] p_pos by (intro mult_right_mono) simp_all
  also have "\<dots> \<le> \<bar>x\<bar> / 2 ^ 53"
    using lo' by simp
  finally show ?thesis .
qed

lemma double53_rounding: "double_rounding double53"
  unfolding double_rounding_def using double53_error by blast


subsection \<open>The scaled dimensions of the fallback\<close>

text \<open>
  The quotient \<open>1280 / max width height\<close> is rounded once, the product with a
  dimension is rounded again and \<^verbatim>\<open>Math.round\<close> takes the nearest integer, halves
  upwards. The three lemmas \<open>factor_bounds\<close>, \<open>scaled_dim\<close> and \<open>scaled_dim_round\<close>
  bound the distance to the exact proportional value at each step.
\<close>

lemma Math_round_near:
  assumes "\<bar>r - of_int n\<bar> < 1 / 2"
  shows "Math_round r = n"
  unfolding Math_round_def using assms by linarith

lemma Math_round_within: "\<bar>of_int (Math_round r) - r\<bar> \<le> 1 / 2"
  unfolding Math_round_def by linarith

lemma fl_quotient:
  assumes fl: "double_rounding fl" and n: "0 < n" "n \<le> 2 ^ 53"
  shows "\<bar>fl (1280 / real n) - 1280 / real n\<bar> \<le> (1280 / real n) / 2 ^ 53"
proof -
  have "real n \<le> 2 ^ 53" using n(2) by (metis of_nat_le_iff of_nat_numeral of_nat_power)
  then have lo: "1280 / (2 ^ 53 :: real) \<le> 1280 / real n"
    using n(1) by (intro divide_left_mono) simp_all
  have "(1 :: real) / 2 ^ 1022 \<le> 1280 / 2 ^ 53" by simp
  with lo have 1: "1 / 2 ^ 1022 \<le> \<bar>1280 / real n\<bar>" by simp
  have "1280 / real n \<le> 1280" using n(1) by (simp add: field_simps)
  then have 2: "\<bar>1280 / real n\<bar> \<le> 2 ^ 1023" by simp
  from fl 1 2 have "\<bar>fl (1280 / real n) - 1280 / real n\<bar> \<le> \<bar>1280 / real n\<bar> / 2 ^ 53"
    unfolding double_rounding_def by blast
  then show ?thesis by simp
qed


lemma real_le_pow53: "n \<le> 2 ^ 53 \<Longrightarrow> real n \<le> 2 ^ 53"
  by (metis of_nat_le_iff of_nat_numeral of_nat_power)

lemma factor_bounds:
  assumes fl: "double_rounding fl" and b: "w \<le> 2 ^ 53" "h \<le> 2 ^ 53" and big: "1280 < max w h"
  shows "1280 / real (max w h) * (1 - 1 / 2 ^ 53) \<le> scaleFactor fl w h \<and>
         scaleFactor fl w h \<le> 1280 / real (max w h) * (1 + 1 / 2 ^ 53)"
proof -
  have q: "\<bar>fl (1280 / real n) - 1280 / real n\<bar> \<le> (1280 / real n) / 2 ^ 53"
    if "0 < n" "n \<le> 2 ^ 53" for n
    using fl_quotient [OF fl that] .
  have sc: "1280 < w \<or> 1280 < h" using big by (simp add: max_def split: if_splits)
  show ?thesis
  proof (cases "w = 0")
    case True
    then have h: "0 < h" "max w h = h" using big by simp_all
    have "scaleFactor fl w h = fl (1280 / real h)"
      using True big by (simp add: scaleFactor_def maxSize_def)
    then show ?thesis using q [OF h(1) b(2)] h(2) by (simp add: algebra_simps abs_le_iff)
  next
    case w: False
    show ?thesis
    proof (cases "h = 0")
      case True
      then have m: "max w h = w" by simp
      have "scaleFactor fl w h = fl (1280 / real w)"
        using True w big by (simp add: scaleFactor_def maxSize_def)
      then show ?thesis using q [of w] w b(1) m by (simp add: algebra_simps abs_le_iff)
    next
      case h: False
      have f: "scaleFactor fl w h = min (fl (1280 / real w)) (fl (1280 / real h))"
        using w h sc by (auto simp: scaleFactor_def maxSize_def)
      have qw: "\<bar>fl (1280 / real w) - 1280 / real w\<bar> \<le> (1280 / real w) / 2 ^ 53"
        using q [of w] w b(1) by simp
      have qh: "\<bar>fl (1280 / real h) - 1280 / real h\<bar> \<le> (1280 / real h) / 2 ^ 53"
        using q [of h] h b(2) by simp
      show ?thesis
      proof (cases "w \<le> h")
        case True
        then have m: "max w h = h" by simp
        have ab: "1280 / real h \<le> 1280 / real w"
          using True w by (intro divide_left_mono) simp_all
        have "1280 / real h * (1 - 1 / 2 ^ 53) \<le> 1280 / real w * (1 - 1 / 2 ^ 53)"
          using ab by (intro mult_right_mono) simp_all
        then show ?thesis
          unfolding f m using qw qh by (simp add: algebra_simps abs_le_iff min_def)
      next
        case False
        then have m: "max w h = w" by simp
        have ab: "1280 / real w \<le> 1280 / real h"
          using False h by (intro divide_left_mono) simp_all
        have "1280 / real w * (1 - 1 / 2 ^ 53) \<le> 1280 / real h * (1 - 1 / 2 ^ 53)"
          using ab by (intro mult_right_mono) simp_all
        then show ?thesis
          unfolding f m using qw qh by (simp add: algebra_simps abs_le_iff min_def)
      qed
    qed
  qed
qed


lemma scaled_dim:
  assumes fl: "double_rounding fl" and b: "w \<le> 2 ^ 53" "h \<le> 2 ^ 53"
    and big: "1280 < max w h" and n: "n \<le> max w h"
  shows "\<bar>fl (real n * scaleFactor fl w h) - real n * (1280 / real (max w h))\<bar> \<le> 3840 / 2 ^ 53"
proof -
  define M where "M = real (max w h)"
  define q where "q = 1280 / M"
  define f where "f = scaleFactor fl w h"
  define u :: real where "u = 1 / 2 ^ 53"
  define x where "x = real n * f"
  have u: "0 < u" "u \<le> 1 / 2" by (simp_all add: u_def)
  have M: "1280 < M" "M \<le> 2 ^ 53"
    using big b by (simp_all add: M_def real_le_pow53 max_def)
  have q: "0 < q" "q \<le> 1" "1280 / 2 ^ 53 \<le> q"
    using M by (simp_all add: q_def field_simps)
  have fb: "q * (1 - u) \<le> f" "f \<le> q * (1 + u)"
    using factor_bounds [OF fl b big] by (simp_all add: q_def M_def f_def u_def)
  have nM: "real n \<le> M" using n by (simp add: M_def)
  have nq: "real n * q \<le> 1280"
  proof -
    have "real n * q \<le> M * q" using nM q(1) by (intro mult_right_mono) simp_all
    also have "\<dots> = 1280" using M by (simp add: q_def)
    finally show ?thesis .
  qed
  have fq: "\<bar>f - q\<bar> \<le> q * u"
    using fb by (simp add: abs_le_iff algebra_simps)
  have d1: "\<bar>x - real n * q\<bar> \<le> 1280 * u"
  proof -
    have "\<bar>x - real n * q\<bar> = real n * \<bar>f - q\<bar>"
      by (simp add: x_def right_diff_distrib [symmetric] abs_mult)
    also have "\<dots> \<le> real n * (q * u)"
      using fq by (intro mult_left_mono) simp_all
    also have "\<dots> = (real n * q) * u" by simp
    also have "\<dots> \<le> 1280 * u"
      using nq u(1) by (intro mult_right_mono) simp_all
    finally show ?thesis .
  qed
  have "1280 * u \<le> 1" by (simp add: u_def)
  then have x_hi: "x \<le> 1281"
    using d1 nq by linarith
  have f_lo: "640 / 2 ^ 53 \<le> f"
  proof -
    have a: "q * (1 / 2) \<le> q * (1 - u)" using q(1) u by (intro mult_left_mono) simp_all
    have c: "640 / 2 ^ 53 \<le> q * (1 / 2)" using q(3) by simp
    show ?thesis using a c fb(1) by linarith
  qed
  have d2: "\<bar>fl x - x\<bar> \<le> 2560 * u"
  proof (cases "n = 0")
    case True
    then have "x = 0" by (simp add: x_def)
    moreover have "\<bar>fl 0 - 0\<bar> \<le> \<bar>0::real\<bar> / 2 ^ 53"
      using fl unfolding double_rounding_def by blast
    ultimately show ?thesis using u by simp
  next
    case False
    then have "1 \<le> real n" by simp
    then have "1 * f \<le> real n * f" using f_lo by (intro mult_right_mono) simp_all
    then have "f \<le> x" by (simp add: x_def)
    then have x_lo: "640 / 2 ^ 53 \<le> x" using f_lo by linarith
    have "(1::real) / 2 ^ 1022 \<le> 640 / 2 ^ 53" by simp
    with x_lo have r1: "1 / 2 ^ 1022 \<le> \<bar>x\<bar>" by simp
    have "(1281::real) \<le> 2 ^ 1023" by simp
    with x_hi x_lo have r2: "\<bar>x\<bar> \<le> 2 ^ 1023" by simp
    from fl r1 r2 have "\<bar>fl x - x\<bar> \<le> \<bar>x\<bar> / 2 ^ 53"
      unfolding double_rounding_def by blast
    also have "\<dots> = \<bar>x\<bar> * u" by (simp add: u_def)
    also have "\<dots> \<le> 2560 * u"
      using x_hi x_lo u(1) by (intro mult_right_mono) simp_all
    finally show ?thesis .
  qed
  have "\<bar>fl x - real n * q\<bar> \<le> \<bar>fl x - x\<bar> + \<bar>x - real n * q\<bar>" by simp
  also have "\<dots> \<le> 3840 * u" using d1 d2 by simp
  finally show ?thesis by (simp add: x_def f_def q_def M_def u_def)
qed

lemma unscaled_dim:
  assumes fl: "double_rounding fl" and small: "max w h \<le> 1280" and n: "n \<le> max w h"
  shows "Math_round (fl (real n * scaleFactor fl w h)) = int n"
proof -
  have f: "scaleFactor fl w h = 1"
    using small by (simp add: scaleFactor_def maxSize_def)
  have "n \<le> 1280" using n small by linarith
  then have n': "real n \<le> 1280" by simp
  have "\<bar>fl (real n) - real n\<bar> \<le> \<bar>real n\<bar> / 2 ^ 53"
  proof (cases "n = 0")
    case True
    then show ?thesis using fl unfolding double_rounding_def by simp
  next
    case False
    then have "1 \<le> real n" by simp
    moreover have "(1::real) / 2 ^ 1022 \<le> 1" by simp
    ultimately have r1: "1 / 2 ^ 1022 \<le> \<bar>real n\<bar>" by simp
    have "(1280::real) \<le> 2 ^ 1023" by simp
    with n' have r2: "\<bar>real n\<bar> \<le> 2 ^ 1023" by simp
    from fl r1 r2 show ?thesis unfolding double_rounding_def by blast
  qed
  also have "\<dots> \<le> 1280 / 2 ^ 53" using n' by simp
  also have "\<dots> < 1 / 2" by simp
  finally have "\<bar>fl (real n) - of_int (int n)\<bar> < 1 / 2" by simp
  then show ?thesis unfolding f by (simp add: Math_round_near)
qed

lemma scaled_dim_round:
  assumes fl: "double_rounding fl" and b: "w \<le> 2 ^ 53" "h \<le> 2 ^ 53"
    and big: "1280 < max w h" and n: "n \<le> max w h"
  shows "Math_round (fl (real n * scaleFactor fl w h)) \<le> 1280 \<and>
         \<bar>real_of_int (Math_round (fl (real n * scaleFactor fl w h))) -
            real n * (1280 / real (max w h))\<bar> \<le> 1 / 2 + 3840 / 2 ^ 53"
proof -
  define y where "y = fl (real n * scaleFactor fl w h)"
  define t where "t = real n * (1280 / real (max w h))"
  have d: "\<bar>y - t\<bar> \<le> 3840 / 2 ^ 53"
    using scaled_dim [OF fl b big n] by (simp add: y_def t_def)
  have t: "t \<le> 1280"
  proof -
    have "real n \<le> real (max w h)" using n by simp
    moreover have "0 < real (max w h)" using big by simp
    ultimately show ?thesis by (simp add: t_def field_simps)
  qed
  have s: "(3840::real) / 2 ^ 53 < 1 / 2" by simp
  have "y + 1 / 2 < 1281" using d t s by linarith
  then have 1: "Math_round y \<le> 1280"
    unfolding Math_round_def by (simp add: floor_less_iff)
  have "\<bar>real_of_int (Math_round y) - t\<bar> \<le> \<bar>real_of_int (Math_round y) - y\<bar> + \<bar>y - t\<bar>"
    by simp
  also have "\<dots> \<le> 1 / 2 + 3840 / 2 ^ 53"
    using Math_round_within [of y] d by simp
  finally show ?thesis using 1 by (simp add: y_def t_def)
qed


lemma int_near: "\<bar>real_of_int a - real_of_int c\<bar> < 1 \<Longrightarrow> a = c"
  by linarith

lemma scaled_1920_1080:
  assumes "double_rounding fl"
  shows "scaledWidth fl 1920 1080 = 1280" "scaledHeight fl 1920 1080 = 720"
proof -
  have p: "(1920::nat) \<le> 2 ^ 53" "(1080::nat) \<le> 2 ^ 53" "1280 < max (1920::nat) 1080"
    "(1920::nat) \<le> max 1920 1080" "(1080::nat) \<le> max 1920 1080"
    by simp_all
  have s: "(3840::real) / 2 ^ 53 < 1 / 2" by simp
  have qw: "real 1920 * (1280 / real (max 1920 1080)) = real_of_int 1280" by simp
  have qh: "real 1080 * (1280 / real (max 1920 1080)) = real_of_int 720" by simp
  have "\<bar>real_of_int (Math_round (fl (real 1920 * scaleFactor fl 1920 1080))) -
      real 1920 * (1280 / real (max 1920 1080))\<bar> \<le> 1 / 2 + 3840 / 2 ^ 53"
    using scaled_dim_round [OF assms p(1,2,3) p(4)] by (rule conjunct2)
  then have "\<bar>real_of_int (Math_round (fl (real 1920 * scaleFactor fl 1920 1080))) -
      real_of_int 1280\<bar> < 1"
    unfolding qw using s by linarith
  then show "scaledWidth fl 1920 1080 = 1280"
    unfolding scaledWidth_def by (rule int_near)
  have "\<bar>real_of_int (Math_round (fl (real 1080 * scaleFactor fl 1920 1080))) -
      real 1080 * (1280 / real (max 1920 1080))\<bar> \<le> 1 / 2 + 3840 / 2 ^ 53"
    using scaled_dim_round [OF assms p(1,2,3) p(5)] by (rule conjunct2)
  then have "\<bar>real_of_int (Math_round (fl (real 1080 * scaleFactor fl 1920 1080))) -
      real_of_int 720\<bar> < 1"
    unfolding qh using s by linarith
  then show "scaledHeight fl 1920 1080 = 720"
    unfolding scaledHeight_def by (rule int_near)
qed

subsection \<open>\<^verbatim>\<open>getScreenshot\<close>\<close>

lemma base64_nonempty: "(base64 bs = []) = (bs = [])"
  by (cases bs rule: base64.cases) simp_all

lemma Math_round_int: "Math_round (real n) = int n"
  unfolding Math_round_def by linarith

text \<open>
  C4, as stated, fails twice. A rejected import of the image library gives
  \<open>success = false\<close> although the capture stage does not fail; and when the capture
  returns an empty buffer and the pipeline raises, the fallback's \<open>screenshot\<close> field
  is the empty string.
\<close>

theorem screenshot_failure_without_capture_failure:
  "ww_capture mock None 0 = Inr fullCapture \<and>
   getScreenshot double53 no_sharp mock None 0 =
     plain False ''Failed to capture screenshot: Cannot find package sharp'' None \<and>
   ww_capture empty_capture None 0 = Inr \<lparr>cap_data = [], cap_width = 0, cap_height = 0\<rparr> \<and>
   success (getScreenshot double53 broken_sharp empty_capture None 0) \<and>
   screenshot (getScreenshot double53 broken_sharp empty_capture None 0) = Some []"
  by (simp add: getScreenshot_def no_sharp_def broken_sharp_def empty_capture_def mock_def
      fullCapture_def regionOf_def imageResponse_def)

text \<open>
  C4, amended. \<^verbatim>\<open>getScreenshot\<close> returns \<open>success = false\<close> exactly when the import
  of the image library or the capture fails. For a full-screen call where both succeed
  and the pipeline raises, the envelope has \<open>success = true\<close>, its \<open>screenshot\<close> is
  the base64 text of the raw buffer (not empty when the buffer is not), and
  \<open>data.width\<close>, \<open>data.height\<close> are \<^verbatim>\<open>Math.round\<close> of the rounded product of the raw
  dimension and one common factor. Under double rounding and for dimensions up to
  \<open>2^53\<close>, both results are at most 1280; they are the raw dimensions when neither
  exceeds 1280; and otherwise each is within \<open>1/2 + 3840 / 2^53\<close> of the raw dimension
  times \<open>1280 / max width height\<close>.
\<close>

theorem screenshot_fallback:
  "(\<not> success (getScreenshot fl lib b options s) \<longleftrightarrow>
      sharp_import lib \<noteq> None \<or> (\<exists>e. ww_capture b (regionOf options) s = Inl e)) \<and>
   (sharp_import lib = None \<longrightarrow> regionOf options = None \<longrightarrow>
    ww_capture b None s = Inr cap \<longrightarrow>
    sharp_toBuffer lib (cap_data cap) (pipeline cap (mergedOptions options)) = Inl e \<longrightarrow>
      success (getScreenshot fl lib b options s) \<and>
      screenshot (getScreenshot fl lib b options s) = Some (base64 (cap_data cap)) \<and>
      (cap_data cap \<noteq> [] \<longrightarrow> base64 (cap_data cap) \<noteq> []) \<and>
      data (getScreenshot fl lib b options s) =
        Some [(''width'', JNum (scaledWidth fl (cap_width cap) (cap_height cap))),
              (''height'', JNum (scaledHeight fl (cap_width cap) (cap_height cap)))] \<and>
      scaledWidth fl (cap_width cap) (cap_height cap) =
        Math_round (fl (real (cap_width cap) * scaleFactor fl (cap_width cap) (cap_height cap))) \<and>
      scaledHeight fl (cap_width cap) (cap_height cap) =
        Math_round (fl (real (cap_height cap) * scaleFactor fl (cap_width cap) (cap_height cap))) \<and>
      (double_rounding fl \<longrightarrow> cap_width cap \<le> 2 ^ 53 \<longrightarrow> cap_height cap \<le> 2 ^ 53 \<longrightarrow>
         scaledWidth fl (cap_width cap) (cap_height cap) \<le> 1280 \<and>
         scaledHeight fl (cap_width cap) (cap_height cap) \<le> 1280 \<and>
         (max (cap_width cap) (cap_height cap) \<le> 1280 \<longrightarrow>
            scaledWidth fl (cap_width cap) (cap_height cap) = int (cap_width cap) \<and>
            scaledHeight fl (cap_width cap) (cap_height cap) = int (cap_height cap)) \<and>
         (1280 < max (cap_width cap) (cap_height cap) \<longrightarrow>
            \<bar>real_of_int (scaledWidth fl (cap_width cap) (cap_height cap)) -
               real (cap_width cap) * (1280 / real (max (cap_width cap) (cap_height cap)))\<bar>
              \<le> 1 / 2 + 3840 / 2 ^ 53 \<and>
            \<bar>real_of_int (scaledHeight fl (cap_width cap) (cap_height cap)) -
               real (cap_height cap) * (1280 / real (max (cap_width cap) (cap_height cap)))\<bar>
              \<le> 1 / 2 + 3840 / 2 ^ 53)))"
proof -
  let ?w = "cap_width cap" and ?h = "cap_height cap"
  have only: "\<not> success (getScreenshot fl lib b options s) \<longleftrightarrow>
      sharp_import lib \<noteq> None \<or> (\<exists>e. ww_capture b (regionOf options) s = Inl e)"
    by (auto simp: getScreenshot_def plain_def imageResponse_def Let_def
        split: option.splits sum.splits)
  have fb: "success (getScreenshot fl lib b options s) \<and>
      screenshot (getScreenshot fl lib b options s) = Some (base64 (cap_data cap)) \<and>
      data (getScreenshot fl lib b options s) =
        Some [(''width'', JNum (scaledWidth fl ?w ?h)), (''height'', JNum (scaledHeight fl ?w ?h))]"
    if "sharp_import lib = None" "regionOf options = None" "ww_capture b None s = Inr cap"
      "sharp_toBuffer lib (cap_data cap) (pipeline cap (mergedOptions options)) = Inl e"
    using that
    by (simp add: getScreenshot_def imageResponse_def Let_def)
  have wh: "?w \<le> max ?w ?h" "?h \<le> max ?w ?h" by simp_all
  have small: "scaledWidth fl ?w ?h = int ?w \<and> scaledHeight fl ?w ?h = int ?h"
    if "double_rounding fl" "max ?w ?h \<le> 1280"
    using unscaled_dim [OF that wh(1)] unscaled_dim [OF that wh(2)]
    by (simp add: scaledWidth_def scaledHeight_def)
  have big: "scaledWidth fl ?w ?h \<le> 1280 \<and> scaledHeight fl ?w ?h \<le> 1280 \<and>
      \<bar>real_of_int (scaledWidth fl ?w ?h) - real ?w * (1280 / real (max ?w ?h))\<bar>
        \<le> 1 / 2 + 3840 / 2 ^ 53 \<and>
      \<bar>real_of_int (scaledHeight fl ?w ?h) - real ?h * (1280 / real (max ?w ?h))\<bar>
        \<le> 1 / 2 + 3840 / 2 ^ 53"
    if "double_rounding fl" "?w \<le> 2 ^ 53" "?h \<le> 2 ^ 53" "1280 < max ?w ?h"
    using scaled_dim_round [OF that wh(1)] scaled_dim_round [OF that wh(2)]
    by (simp add: scaledWidth_def scaledHeight_def)
  have le: "scaledWidth fl ?w ?h \<le> 1280 \<and> scaledHeight fl ?w ?h \<le> 1280"
    if r: "double_rounding fl" "?w \<le> 2 ^ 53" "?h \<le> 2 ^ 53"
  proof (cases "1280 < max ?w ?h")
    case True
    then show ?thesis using big [OF r] by blast
  next
    case False
    then have m: "max ?w ?h \<le> 1280" by linarith
    then have "int ?w \<le> 1280" "int ?h \<le> 1280" by linarith+
    then show ?thesis using small [OF r(1) m] by simp
  qed
  have defs: "scaledWidth fl ?w ?h = Math_round (fl (real ?w * scaleFactor fl ?w ?h))"
    "scaledHeight fl ?w ?h = Math_round (fl (real ?h * scaleFactor fl ?w ?h))"
    by (simp_all add: scaledWidth_def scaledHeight_def)
  show ?thesis
    using only fb small big le defs by (simp only: base64_nonempty) blast
qed


theorem screenshot_fallback_witness:
  "sharp_import broken_sharp = None \<and> regionOf None = None \<and>
   ww_capture mock None 0 = Inr fullCapture \<and>
   sharp_toBuffer broken_sharp (cap_data fullCapture) (pipeline fullCapture (mergedOptions None)) =
     Inl ''Input buffer has wrong size'' \<and>
   double_rounding double53 \<and>
   cap_width fullCapture = 1920 \<and> cap_height fullCapture = 1080 \<and>
   success (getScreenshot double53 broken_sharp mock None 0) \<and>
   screenshot (getScreenshot double53 broken_sharp mock None 0) = Some ''AQIDBA=='' \<and>
   data (getScreenshot double53 broken_sharp mock None 0) =
     Some [(''width'', JNum 1280), (''height'', JNum 720)]"
proof -
  have 1: "sharp_import broken_sharp = None" "regionOf None = None"
    "ww_capture mock None 0 = Inr fullCapture"
    "sharp_toBuffer broken_sharp (cap_data fullCapture) (pipeline fullCapture (mergedOptions None)) =
       Inl ''Input buffer has wrong size''"
    by (simp_all add: broken_sharp_def regionOf_def mock_def fullCapture_def)
  have 2: "cap_width fullCapture = 1920" "cap_height fullCapture = 1080"
    by (simp_all add: fullCapture_def)
  have 3: "base64 (cap_data fullCapture) = ''AQIDBA==''"
    by (simp add: fullCapture_def b64_char_def b64_alphabet_def)
  note 4 = scaled_1920_1080 [OF double53_rounding]
  show ?thesis
    using 1 2 3 4 double53_rounding
      screenshot_fallback [of double53 broken_sharp mock None 0 fullCapture
        "''Input buffer has wrong size''"]
    by simp
qed

text \<open>
  The margin above \<open>1/2\<close> is needed: for a capture of 19968 by 117 the exact scaled height
  is \<open>7.5\<close>, which \<^verbatim>\<open>Math.round\<close> would take to 8, while the doubles give
  \<open>7.499999999999999\<close> and the reported height is 7.
\<close>

lemma double53_at:
  assumes "0 < x" and "2 powr of_int k \<le> x" and "x < 2 powr of_int (k + 1)"
  shows "double53 x = of_int (round_even (x / 2 powr of_int (k - 52))) * 2 powr of_int (k - 52)"
proof -
  have "\<lfloor>log 2 x\<rfloor> = k"
    using assms by (simp add: floor_log_eq_powr_iff)
  then show ?thesis
    using assms(1) by (simp add: double53_def Let_def)
qed

lemma factor_19968: "double53 (1280 / 19968) = 4619076540892816 / 2 ^ 56"
proof -
  have a: "(2::real) powr of_int (- 4) = 1 / 2 ^ 4" "(2::real) powr of_int (- 4 + 1) = 1 / 2 ^ 3"
    "(2::real) powr of_int (- 4 - 52) = 1 / 2 ^ 56"
    by (simp_all add: powr_minus_divide)
  have r: "round_even ((1280 / 19968) / (1 / 2 ^ 56)) = 4619076540892816"
    by (simp add: round_even_def Let_def)
  have "double53 (1280 / 19968) =
      of_int (round_even ((1280 / 19968) / 2 powr of_int (- 4 - 52))) * 2 powr of_int (- 4 - 52)"
    by (rule double53_at) (simp_all only: a, simp_all)
  then show ?thesis
    unfolding a r by simp
qed

lemma product_117: "double53 (117 * (4619076540892816 / 2 ^ 56)) = 8444249301319679 / 2 ^ 50"
proof -
  have a: "(2::real) powr of_int 2 = 2 ^ 2" "(2::real) powr of_int (2 + 1) = 2 ^ 3"
    "(2::real) powr of_int (2 - 52) = 1 / 2 ^ 50"
    by (simp_all add: powr_minus_divide)
  have r: "round_even ((117 * (4619076540892816 / 2 ^ 56)) / (1 / 2 ^ 50)) = 8444249301319679"
    by (simp add: round_even_def Let_def)
  have "double53 (117 * (4619076540892816 / 2 ^ 56)) =
      of_int (round_even ((117 * (4619076540892816 / 2 ^ 56)) / 2 powr of_int (2 - 52))) *
        2 powr of_int (2 - 52)"
    by (rule double53_at) (simp_all only: a, simp_all)
  then show ?thesis
    unfolding a r by simp
qed

lemma factor_117_large: "1 \<le> double53 (1280 / 117)"
proof -
  have "\<bar>double53 (1280 / 117) - 1280 / 117\<bar> \<le> \<bar>1280 / 117\<bar> / 2 ^ 53"
    by (rule double53_error)
  moreover have "\<bar>1280 / 117 :: real\<bar> / 2 ^ 53 \<le> 1" "(2::real) \<le> 1280 / 117"
    by simp_all
  ultimately show ?thesis by linarith
qed

lemma scaleFactor_19968: "scaleFactor double53 19968 117 = 4619076540892816 / 2 ^ 56"
proof -
  have "double53 (1280 / 19968) \<le> 1"
    unfolding factor_19968 by simp
  then have le: "double53 (1280 / 19968) \<le> double53 (1280 / 117)"
    using factor_117_large by linarith
  have "scaleFactor double53 19968 117 = min (double53 (1280 / 19968)) (double53 (1280 / 117))"
    by (simp add: scaleFactor_def maxSize_def)
  also have "\<dots> = double53 (1280 / 19968)"
    using le by (rule min_absorb1)
  finally show ?thesis
    unfolding factor_19968 .
qed

lemma height_19968_117:
  "scaledHeight double53 19968 117 = 7 \<and> Math_round (117 * (1280 / 19968)) = 8"
proof -
  have "real 117 * scaleFactor double53 19968 117 = 117 * (4619076540892816 / 2 ^ 56)"
    unfolding scaleFactor_19968 by simp
  then have "scaledHeight double53 19968 117 = Math_round (8444249301319679 / 2 ^ 50)"
    unfolding scaledHeight_def product_117 [symmetric] by (rule arg_cong)
  moreover have "Math_round (8444249301319679 / 2 ^ 50) = 7"
    "Math_round (117 * (1280 / 19968)) = 8"
    by (simp_all add: Math_round_def)
  ultimately show ?thesis by simp
qed

text \<open>A successful region capture reports the requested region's size, on both paths.\<close>

lemma region_dimensions_reported:
  assumes "regionOf options = Some r" and "success (getScreenshot fl lib b options s)"
  shows "data (getScreenshot fl lib b options s) =
           Some [(''width'', JNum (r_width r)), (''height'', JNum (r_height r))]"
  using assms
  by (auto simp: getScreenshot_def plain_def imageResponse_def Let_def
      split: option.splits sum.splits)

text \<open>
  C7, second half, at a full-screen capture of 1920 by 1080 whose pipeline succeeds: the
  pipeline is told to resize to width 1280, and the envelope reports 1920 by 1080, the
  raw capture's size. The fallback reports 1280 by 720 for the same capture.
\<close>

theorem fullscreen_success_reports_raw_dimensions:
  "ww_capture mock None 0 = Inr fullCapture \<and>
   pipeline fullCapture (mergedOptions None) =
     [Raw 1920 1080 4, Resize (Some 1280) None None True, RemoveAlpha, ToColorspace ''srgb'',
      Resize (Some 1280) None (Some Inside) True, JpegOut 70] \<and>
   success (getScreenshot double53 good_sharp mock None 0) \<and>
   message (getScreenshot double53 good_sharp mock None 0) = ''Screenshot captured successfully'' \<and>
   data (getScreenshot double53 good_sharp mock None 0) =
     Some [(''width'', JNum 1920), (''height'', JNum 1080)] \<and>
   data (getScreenshot double53 broken_sharp mock None 0) =
     Some [(''width'', JNum 1280), (''height'', JNum 720)]"
proof -
  have p: "pipeline fullCapture (mergedOptions None) =
     [Raw 1920 1080 4, Resize (Some 1280) None None True, RemoveAlpha, ToColorspace ''srgb'',
      Resize (Some 1280) None (Some Inside) True, JpegOut 70]"
    by (simp add: pipeline_def mergedOptions_def fullCapture_def initialWidth_def resizeWidth_def
        resizeHeight_def resizeFit_def opt_or_def or_num_def truthy_def)
  have g: "getScreenshot double53 good_sharp mock None 0 =
      imageResponse ''Screenshot captured successfully'' (base64 [255, 216, 255])
        [(''width'', JNum 1920), (''height'', JNum 1080)] ''image/jpeg''"
    by (simp add: getScreenshot_def good_sharp_def mock_def fullCapture_def regionOf_def
        Math_round_int mimeType_def mergedOptions_def)
  have f: "data (getScreenshot double53 broken_sharp mock None 0) =
     Some [(''width'', JNum 1280), (''height'', JNum 720)]"
    by (simp add: getScreenshot_def broken_sharp_def mock_def fullCapture_def regionOf_def
        imageResponse_def scaled_1920_1080 [OF double53_rounding])
  show ?thesis
    using p g f by (simp add: imageResponse_def mock_def fullCapture_def)
qed

section \<open>The envelope invariant\<close>













lemma tool_outcome_no_data:
  assumes "tool_outcome what r returned caught" and "\<And>r'. returned r' \<Longrightarrow> failure_has_no_data r'"
  shows "failure_has_no_data r"
  using assms by (auto simp: tool_outcome_def failure_has_no_data_def plain_def)













end
